theory Spec2Isabelle
  imports Complex_Main "HOL-Library.AList"
begin

section \<open>JavaScript values\<close>

text \<open>
  The dashboard is JavaScript: a form field is a string, a stored coordinate or
  timestamp may be a number, a string, or missing. The handlers rely on the
  language's coercions (truthiness, \<^verbatim>\<open>parseFloat\<close>, \<^verbatim>\<open>parseInt\<close>,
  \<^verbatim>\<open>isNaN\<close>), so these are modelled first.

  A number is an exact real, one of the two infinities, or NaN. Rounding to
  binary64 and the sign of zero are not modelled. A string is a list of code
  units below 256.
\<close>

datatype number = NaN | NegInf | Fin real | PosInf

datatype jsval =
    Undefined
  | Null
  | Boolean bool
  | Number number
  | String string
  | Array "jsval list"
  | Object "(string \<times> jsval) list"

type_synonym obj = "(string \<times> jsval) list"

text \<open>Property access \<^verbatim>\<open>o.k\<close>: a missing property reads as \<^verbatim>\<open>undefined\<close>.\<close>

definition getprop :: "obj \<Rightarrow> string \<Rightarrow> jsval" where
  "getprop ob k = (case map_of ob k of None \<Rightarrow> Undefined | Some v \<Rightarrow> v)"

subsection \<open>Arithmetic and comparison on numbers\<close>

fun num_less :: "number \<Rightarrow> number \<Rightarrow> bool" where
  "num_less NaN _ = False"
| "num_less _ NaN = False"
| "num_less (Fin x) (Fin y) = (x < y)"
| "num_less _ NegInf = False"
| "num_less NegInf _ = True"
| "num_less PosInf _ = False"
| "num_less _ PosInf = True"

definition num_le :: "number \<Rightarrow> number \<Rightarrow> bool" where
  "num_le a b = (a \<noteq> NaN \<and> b \<noteq> NaN \<and> (a = b \<or> num_less a b))"

definition num_ge :: "number \<Rightarrow> number \<Rightarrow> bool" where
  "num_ge a b = num_le b a"

fun num_neg :: "number \<Rightarrow> number" where
  "num_neg NaN = NaN"
| "num_neg NegInf = PosInf"
| "num_neg (Fin x) = Fin (- x)"
| "num_neg PosInf = NegInf"

fun num_sub :: "number \<Rightarrow> number \<Rightarrow> number" where
  "num_sub NaN _ = NaN"
| "num_sub _ NaN = NaN"
| "num_sub (Fin x) (Fin y) = Fin (x - y)"
| "num_sub PosInf PosInf = NaN"
| "num_sub NegInf NegInf = NaN"
| "num_sub PosInf _ = PosInf"
| "num_sub NegInf _ = NegInf"
| "num_sub _ PosInf = NegInf"
| "num_sub _ NegInf = PosInf"

fun num_mul :: "number \<Rightarrow> number \<Rightarrow> number" where
  "num_mul NaN _ = NaN"
| "num_mul _ NaN = NaN"
| "num_mul (Fin x) (Fin y) = Fin (x * y)"
| "num_mul a b =
     (if a = Fin 0 \<or> b = Fin 0 then NaN
      else if num_less a (Fin 0) = num_less b (Fin 0) then PosInf else NegInf)"

subsection \<open>Truthiness and \<^verbatim>\<open>typeof\<close>\<close>

fun truthy :: "jsval \<Rightarrow> bool" where
  "truthy Undefined = False"
| "truthy Null = False"
| "truthy (Boolean b) = b"
| "truthy (Number n) = (n \<noteq> NaN \<and> n \<noteq> Fin 0)"
| "truthy (String s) = (s \<noteq> [])"
| "truthy (Array _) = True"
| "truthy (Object _) = True"

fun typeof :: "jsval \<Rightarrow> string" where
  "typeof Undefined = ''undefined''"
| "typeof Null = ''object''"
| "typeof (Boolean _) = ''boolean''"
| "typeof (Number _) = ''number''"
| "typeof (String _) = ''string''"
| "typeof (Array _) = ''object''"
| "typeof (Object _) = ''object''"

subsection \<open>Numeric literals in strings\<close>

definition is_ws :: "char \<Rightarrow> bool" where
  "is_ws c = (of_char c \<in> {9, 10, 11, 12, 13, 32, 160 :: int})"

definition is_digit :: "char \<Rightarrow> bool" where
  "is_digit c = (48 \<le> (of_char c :: int) \<and> (of_char c :: int) \<le> 57)"

text \<open>Value of a character as a digit in a radix up to 36; 36 when it is none.\<close>

definition digit_val :: "char \<Rightarrow> int" where
  "digit_val c =
     (let n = (of_char c :: int) in
      if 48 \<le> n \<and> n \<le> 57 then n - 48
      else if 97 \<le> n \<and> n \<le> 122 then n - 87
      else if 65 \<le> n \<and> n \<le> 90 then n - 55
      else 36)"

definition radix_val :: "int \<Rightarrow> string \<Rightarrow> int" where
  "radix_val r ds = foldl (\<lambda>a c. r * a + digit_val c) 0 ds"

text \<open>
  The longest prefix that is an ExponentPart (\<^verbatim>\<open>e\<close> or \<^verbatim>\<open>E\<close>, an optional sign,
  at least one digit): the exponent and the rest; exponent 0 and the input
  where there is none.
\<close>

definition scan_exponent :: "string \<Rightarrow> int \<times> string" where
  "scan_exponent s =
     (case s of
        [] \<Rightarrow> (0, s)
      | e # t \<Rightarrow>
          if e = CHR ''e'' \<or> e = CHR ''E'' then
            (let (neg, u) = (case t of
                               [] \<Rightarrow> (False, t)
                             | g # v \<Rightarrow> if g = CHR ''-'' then (True, v)
                                        else if g = CHR ''+'' then (False, v)
                                        else (False, t));
                 ds = takeWhile is_digit u
             in if ds = [] then (0, s)
                else ((if neg then - radix_val 10 ds else radix_val 10 ds),
                      dropWhile is_digit u))
          else (0, s))"

definition pow10 :: "int \<Rightarrow> real" where
  "pow10 e = (if 0 \<le> e then 10 ^ nat e else 1 / 10 ^ nat (- e))"

text \<open>
  The longest prefix that is a StrUnsignedDecimalLiteral, with its value and
  the rest of the string; None where no prefix is one.
\<close>

definition scan_unsigned :: "string \<Rightarrow> (number \<times> string) option" where
  "scan_unsigned s =
     (if take 8 s = ''Infinity'' then Some (PosInf, drop 8 s)
      else
        let ip = takeWhile is_digit s;
            r1 = dropWhile is_digit s;
            dot = (r1 \<noteq> [] \<and> hd r1 = CHR ''.'');
            fp = (if dot then takeWhile is_digit (tl r1) else []);
            r2 = (if dot then dropWhile is_digit (tl r1) else r1)
        in if ip = [] \<and> fp = [] then None
           else
             let (e, r3) = scan_exponent r2;
                 m = real_of_int (radix_val 10 ip) + real_of_int (radix_val 10 fp) / 10 ^ length fp
             in Some (Fin (m * pow10 e), r3))"

definition scan_decimal :: "string \<Rightarrow> (number \<times> string) option" where
  "scan_decimal s =
     (case s of
        [] \<Rightarrow> None
      | c # t \<Rightarrow>
          if c = CHR ''+'' then scan_unsigned t
          else if c = CHR ''-'' then map_option (\<lambda>(v, r). (num_neg v, r)) (scan_unsigned t)
          else scan_unsigned s)"

definition trim_start :: "string \<Rightarrow> string" where
  "trim_start s = dropWhile is_ws s"

definition trim :: "string \<Rightarrow> string" where
  "trim s = rev (dropWhile is_ws (rev (dropWhile is_ws s)))"

text \<open>\<^verbatim>\<open>parseFloat\<close> of a string: leading white space is skipped, trailing text ignored.\<close>

definition str_parseFloat :: "string \<Rightarrow> number" where
  "str_parseFloat s =
     (case scan_decimal (trim_start s) of None \<Rightarrow> NaN | Some (v, _) \<Rightarrow> v)"

text \<open>
  \<^verbatim>\<open>parseInt\<close> of a string with no radix argument: radix 10, or 16 after a
  \<^verbatim>\<open>0x\<close> prefix.
\<close>

definition str_parseInt :: "string \<Rightarrow> number" where
  "str_parseInt s =
     (let t = trim_start s;
          neg = (t \<noteq> [] \<and> hd t = CHR ''-'');
          u = (if t \<noteq> [] \<and> (hd t = CHR ''+'' \<or> hd t = CHR ''-'') then tl t else t);
          hex = (take 2 u = ''0x'' \<or> take 2 u = ''0X'');
          r = (if hex then 16 else 10);
          z = takeWhile (\<lambda>c. digit_val c < r) (if hex then drop 2 u else u)
      in if z = [] then NaN
         else Fin (if neg then - real_of_int (radix_val r z) else real_of_int (radix_val r z)))"

text \<open>
  ToNumber of a string: the whole trimmed string must be a numeric literal;
  the empty string is 0.
\<close>

definition nondecimal :: "int \<Rightarrow> string \<Rightarrow> number" where
  "nondecimal r ds =
     (if ds \<noteq> [] \<and> list_all (\<lambda>c. digit_val c < r) ds then Fin (real_of_int (radix_val r ds))
      else NaN)"

definition str_toNumber :: "string \<Rightarrow> number" where
  "str_toNumber s =
     (let t = trim s; p = take 2 t in
      if t = [] then Fin 0
      else if p = ''0x'' \<or> p = ''0X'' then nondecimal 16 (drop 2 t)
      else if p = ''0o'' \<or> p = ''0O'' then nondecimal 8 (drop 2 t)
      else if p = ''0b'' \<or> p = ''0B'' then nondecimal 2 (drop 2 t)
      else case scan_decimal t of
             Some (v, []) \<Rightarrow> v
           | _ \<Rightarrow> NaN)"

text \<open>
  ToNumber. An array is first joined with commas: the empty array is the empty
  string, a one-element array is its element's string, and a longer one
  contains a comma, which no numeric literal does. A number's string reads
  back as the same number.
\<close>

fun toNumber :: "jsval \<Rightarrow> number" where
  "toNumber Undefined = NaN"
| "toNumber Null = Fin 0"
| "toNumber (Boolean b) = Fin (if b then 1 else 0)"
| "toNumber (Number n) = n"
| "toNumber (String s) = str_toNumber s"
| "toNumber (Array []) = Fin 0"
| "toNumber (Array [Undefined]) = Fin 0"
| "toNumber (Array [Null]) = Fin 0"
| "toNumber (Array [Boolean _]) = NaN"
| "toNumber (Array [Object _]) = NaN"
| "toNumber (Array [x]) = toNumber x"
| "toNumber (Array (_ # _ # _)) = NaN"
| "toNumber (Object _) = NaN"

text \<open>The global \<^verbatim>\<open>isNaN\<close> coerces its argument with ToNumber.\<close>

definition isNaN :: "jsval \<Rightarrow> bool" where
  "isNaN v = (toNumber v = NaN)"

text \<open>
  \<^verbatim>\<open>parseFloat\<close> and \<^verbatim>\<open>parseInt\<close> convert their argument to a string first. For
  an array only the first element's string can contribute, the comma after it
  ending any literal.
\<close>

fun parseFloat :: "jsval \<Rightarrow> number" where
  "parseFloat (Number n) = n"
| "parseFloat (String s) = str_parseFloat s"
| "parseFloat (Array (Number n # _)) = n"
| "parseFloat (Array (String s # _)) = str_parseFloat s"
| "parseFloat (Array (Array xs # _)) = parseFloat (Array xs)"
| "parseFloat _ = NaN"

subsection \<open>Printing integers\<close>

text \<open>
  The decimal string of an integer, as a template literal or \<^verbatim>\<open>toString()\<close>
  prints it.
\<close>

function digits_of :: "int \<Rightarrow> string" where
  "digits_of n =
     (if n < 10 then [char_of (48 + n)]
      else digits_of (n div 10) @ [char_of (48 + n mod 10)])"
  by pat_completeness auto
termination
  by (relation "measure nat") auto

declare digits_of.simps [simp del]

definition show_int :: "int \<Rightarrow> string" where
  "show_int i = (if i < 0 then CHR ''-'' # digits_of (- i) else digits_of i)"

section \<open>Status classifier\<close>

text \<open>
  \<^verbatim>\<open>getNodeStatus\<close> of \<^verbatim>\<open>src/lib/utils.js\<close>. The first argument is the value
  \<^verbatim>\<open>Date.now()\<close> returns, in milliseconds. A string is taken as epoch seconds
  and multiplied by 1000; any other value enters the subtraction as it is,
  where ToNumber coerces it.
\<close>

definition getNodeStatus :: "int \<Rightarrow> jsval \<Rightarrow> string" where
  "getNodeStatus now lastUpdate =
     (if \<not> truthy lastUpdate then ''offline''
      else
        let lastUpdateMs =
              (case lastUpdate of
                 String s \<Rightarrow> Number (num_mul (str_parseInt s) (Fin 1000))
               | _ \<Rightarrow> lastUpdate);
            diff = num_sub (Fin (real_of_int now)) (toNumber lastUpdateMs)
        in if num_less diff (Fin (5 * 60 * 1000)) then ''online''
           else ''offline'')"

text \<open>
  The \<^verbatim>\<open>getNodeStatus\<close> helper local to the home page, \<^verbatim>\<open>src/app/page.js\<close>,
  which has the warning tier.
\<close>

definition getNodeStatus_home :: "int \<Rightarrow> jsval \<Rightarrow> string" where
  "getNodeStatus_home now lastUpdate =
     (if \<not> truthy lastUpdate then ''offline''
      else
        let lastUpdateTime =
              (case lastUpdate of
                 String s \<Rightarrow> Number (num_mul (str_parseInt s) (Fin 1000))
               | _ \<Rightarrow> lastUpdate);
            timeDiff = num_sub (Fin (real_of_int now)) (toNumber lastUpdateTime)
        in if num_less timeDiff (Fin (5 * 60 * 1000)) then ''online''
           else if num_less timeDiff (Fin (15 * 60 * 1000)) then ''warning''
           else ''offline'')"

section \<open>Coordinate and phone validation\<close>

text \<open>\<^verbatim>\<open>src/lib/utils.js\<close>.\<close>

definition isValidLatitude :: "jsval \<Rightarrow> bool" where
  "isValidLatitude lat =
     (let num = parseFloat lat in
      \<not> isNaN (Number num) \<and> num_ge num (Fin (- 90)) \<and> num_le num (Fin 90))"

definition isValidLongitude :: "jsval \<Rightarrow> bool" where
  "isValidLongitude lng =
     (let num = parseFloat lng in
      \<not> isNaN (Number num) \<and> num_ge num (Fin (- 180)) \<and> num_le num (Fin 180))"

text \<open>\<^verbatim>\<open>phone.replace(/\D/g, '')\<close> keeps the characters 0 to 9.\<close>

definition cleaned :: "string \<Rightarrow> string" where
  "cleaned phone = filter is_digit phone"

definition startsWith :: "string \<Rightarrow> string \<Rightarrow> bool" where
  "startsWith s p = (take (length p) s = p)"

definition isValidPhoneNumber :: "string \<Rightarrow> bool" where
  "isValidPhoneNumber phone =
     (let c = cleaned phone in
      length c = 10 \<or> (length c = 12 \<and> startsWith c ''91''))"

definition formatPhoneNumber :: "string \<Rightarrow> string" where
  "formatPhoneNumber phone =
     (let c = cleaned phone in
      if length c = 10 then ''+91'' @ c
      else if length c = 12 \<and> startsWith c ''91'' then ''+'' @ c
      else phone)"

section \<open>Map filter\<close>

text \<open>
  Optional chaining \<^verbatim>\<open>v?.k\<close> for a key that no built-in prototype has
  (\<^verbatim>\<open>metadata\<close>, \<^verbatim>\<open>latitude\<close>, \<^verbatim>\<open>longitude\<close>, \<^verbatim>\<open>associatedNodes\<close>): the property of an
  object, \<^verbatim>\<open>undefined\<close> on anything else.
\<close>

fun member :: "jsval \<Rightarrow> string \<Rightarrow> jsval" where
  "member (Object ob) k = getprop ob k"
| "member _ k = Undefined"

text \<open>
  The predicate of \<^verbatim>\<open>validNodes\<close> in \<^verbatim>\<open>DashboardMap\<close>. The last two conjuncts
  read \<^verbatim>\<open>node.metadata.latitude\<close> without \<^verbatim>\<open>?.\<close>, and are reached only when
  the first two are truthy, so they cannot throw.
\<close>

definition validNode :: "jsval \<Rightarrow> bool" where
  "validNode node =
     (truthy (member (member node ''metadata'') ''latitude'') \<and>
      truthy (member (member node ''metadata'') ''longitude'') \<and>
      \<not> isNaN (member (member node ''metadata'') ''latitude'') \<and>
      \<not> isNaN (member (member node ''metadata'') ''longitude''))"

definition validNodes :: "jsval list \<Rightarrow> jsval list" where
  "validNodes nodes = filter validNode nodes"

text \<open>
  \<^verbatim>\<open>MapBoundsUpdater\<close> filters the nodes it is given once more, with the same
  text, and maps the survivors to pairs of numbers.
\<close>

definition validBounds :: "jsval list \<Rightarrow> (number \<times> number) list" where
  "validBounds nodes =
     map (\<lambda>node. (toNumber (member (member node ''metadata'') ''latitude''),
                  toNumber (member (member node ''metadata'') ''longitude'')))
       (filter (\<lambda>node.
          truthy (member (member node ''metadata'') ''latitude'') \<and>
          truthy (member (member node ''metadata'') ''longitude'') \<and>
          \<not> isNaN (member (member node ''metadata'') ''latitude'') \<and>
          \<not> isNaN (member (member node ''metadata'') ''longitude'')) nodes)"

text \<open>
  The invariant as the specification words it, for comparison with the filter:
  latitude and longitude both present as numbers, within \<open>[-90, 90]\<close> and
  \<open>[-180, 180]\<close>.
\<close>

definition numeric_within :: "real \<Rightarrow> real \<Rightarrow> jsval \<Rightarrow> bool" where
  "numeric_within lo hi v = (case v of Number (Fin x) \<Rightarrow> lo \<le> x \<and> x \<le> hi | _ \<Rightarrow> False)"

definition spec_visible :: "jsval \<Rightarrow> bool" where
  "spec_visible node =
     (numeric_within (- 90) 90 (member (member node ''metadata'') ''latitude'') \<and>
      numeric_within (- 180) 180 (member (member node ''metadata'') ''longitude''))"

text \<open>
  The dashboard page (the \<^verbatim>\<open>DashboardPage\<close> component) is the caller of
  \<^verbatim>\<open>DashboardMap\<close>. Its listener on \<^verbatim>\<open>nodes\<close> goes through the stored nodes and
  keeps a node only when the metadata is there, neither coordinate is missing
  (a falsy coordinate counts as missing unless it is the number 0), both are of
  type number, and both are within range.
\<close>

definition dashboard_accepts :: "jsval \<Rightarrow> bool" where
  "dashboard_accepts node =
     (let metadata = member node ''metadata'';
          latitude = member metadata ''latitude'';
          longitude = member metadata ''longitude''
      in if \<not> truthy metadata then False
         else if \<not> truthy latitude \<and> latitude \<noteq> Number (Fin 0) then False
         else if \<not> truthy longitude \<and> longitude \<noteq> Number (Fin 0) then False
         else if typeof latitude \<noteq> ''number'' then False
         else if typeof longitude \<noteq> ''number'' then False
         else if num_less (toNumber latitude) (Fin (- 90)) \<or> num_less (Fin 90) (toNumber latitude)
         then False
         else if num_less (toNumber longitude) (Fin (- 180)) \<or>
                 num_less (Fin 180) (toNumber longitude)
         then False
         else True)"

text \<open>\<^verbatim>\<open>nodeArray\<close>, the page's \<^verbatim>\<open>nodes\<close> state, from the entries of the snapshot.\<close>

definition nodeArray :: "(string \<times> jsval) list \<Rightarrow> jsval list" where
  "nodeArray data = filter dashboard_accepts (map snd data)"

text \<open>The nodes that get a marker: the page's state, filtered again by the component.\<close>

definition markers :: "(string \<times> jsval) list \<Rightarrow> jsval list" where
  "markers data = validNodes (nodeArray data)"

section \<open>The realtime store\<close>

text \<open>
  The store is the external realtime database, seen through the client calls
  the pages make: \<^verbatim>\<open>get\<close>, \<^verbatim>\<open>set\<close>, \<^verbatim>\<open>update\<close> and \<^verbatim>\<open>remove\<close> on the paths
  \<^verbatim>\<open>nodes/{id}\<close>, \<^verbatim>\<open>nodes/{id}/alerts/{alertId}\<close>, \<^verbatim>\<open>alerts/{id}\<close>, \<^verbatim>\<open>contacts/{id}\<close>,
  \<^verbatim>\<open>logs/{id}\<close> and \<^verbatim>\<open>notifications/{id}\<close>. Each collection is an association
  list from key to record. An identifier is taken as one path segment. A
  write succeeds unless the client rejects the value before sending it.
\<close>

datatype error =
    ValidationError
  | DuplicateIdError
  | VerificationError
  | StoreError
  | TypeError

record node =
  n_metadata :: "obj option"
  n_realtime :: "obj option"
  n_history :: "(string \<times> obj) list"
  n_alerts :: "(string \<times> obj) list"

text \<open>
  A contact has the fields \<^verbatim>\<open>contactData\<close> is built with. An empty list of
  associated nodes is not stored and reads back as a missing property, which
  \<^verbatim>\<open>associatedNodes?.some(...)\<close> treats like the empty list.
\<close>

record contact =
  ct_id :: string
  ct_name :: string
  ct_phone :: string
  ct_email :: string
  ct_associatedNodes :: "string list"
  ct_notificationPreference :: string
  ct_createdAt :: int
  ct_lastUpdated :: int

record store =
  nodes :: "(string \<times> node) list"
  alerts :: "(string \<times> obj) list"
  contacts :: "(string \<times> contact) list"
  logs :: "(string \<times> obj) list"
  notifications :: "(string \<times> obj) list"

text \<open>
  The client refuses a value that contains \<^verbatim>\<open>undefined\<close>, NaN or an infinity
  anywhere, by throwing before anything is written.
\<close>

fun fb_valid :: "jsval \<Rightarrow> bool" where
  "fb_valid Undefined = False"
| "fb_valid (Number (Fin _)) = True"
| "fb_valid (Number _) = False"
| "fb_valid (Array xs) = list_all fb_valid xs"
| "fb_valid (Object kvs) = list_all (\<lambda>kv. fb_valid (snd kv)) kvs"
| "fb_valid _ = True"

text \<open>
  What is kept of a written value: a property whose value is \<^verbatim>\<open>null\<close>, an
  empty array or an empty object is not stored.
\<close>

definition vacant :: "jsval \<Rightarrow> bool" where
  "vacant v = (v = Null \<or> v = Array [] \<or> v = Object [])"

fun stored :: "jsval \<Rightarrow> jsval" where
  "stored (Object kvs) =
     Object (filter (\<lambda>kv. \<not> vacant (snd kv)) (map (\<lambda>kv. (fst kv, stored (snd kv))) kvs))"
| "stored (Array xs) = Array (map stored xs)"
| "stored v = v"

definition stored_obj :: "obj \<Rightarrow> obj" where
  "stored_obj ob = filter (\<lambda>kv. \<not> vacant (snd kv)) (map (\<lambda>kv. (fst kv, stored (snd kv))) ob)"

text \<open>\<^verbatim>\<open>set\<close> of a record at a key of a collection; an empty record removes the key.\<close>

definition fb_put :: "string \<Rightarrow> obj \<Rightarrow> (string \<times> obj) list \<Rightarrow> (string \<times> obj) list" where
  "fb_put k ob coll =
     (if stored_obj ob = [] then AList.delete k coll
      else AList.update k (stored_obj ob) coll)"

text \<open>\<^verbatim>\<open>update\<close>: the given properties are written one by one, the others stay.\<close>

definition fb_merge :: "obj \<Rightarrow> obj \<Rightarrow> obj" where
  "fb_merge old new =
     foldl (\<lambda>acc kv. if vacant (snd kv) then AList.delete (fst kv) acc
                      else AList.update (fst kv) (snd kv) acc)
       old (map (\<lambda>kv. (fst kv, stored (snd kv))) new)"

text \<open>
  \<^verbatim>\<open>generateId\<close> of \<^verbatim>\<open>src/lib/utils.js\<close>: the prefix, \<^verbatim>\<open>Date.now()\<close> and nine
  base-36 characters of \<^verbatim>\<open>Math.random()\<close>. The two draws are its arguments.
\<close>

definition generateId :: "string \<Rightarrow> int \<times> string \<Rightarrow> string" where
  "generateId prefix draw = prefix @ ''_'' @ show_int (fst draw) @ ''_'' @ snd draw"

section \<open>Contact registry\<close>

record contactForm =
  c_name :: string
  c_phone :: string
  c_email :: string
  c_associatedNodes :: "string list"
  c_notificationPreference :: string

text \<open>
  \<^verbatim>\<open>handleSubmit\<close> of \<^verbatim>\<open>src/app/contacts/page.js\<close>. \<open>draw\<close> feeds
  \<^verbatim>\<open>generateId('contact')\<close>; \<open>t1\<close> and \<open>t2\<close> are the two later readings of the clock.
\<close>

definition contacts_handleSubmit ::
  "int \<times> string \<Rightarrow> int \<Rightarrow> int \<Rightarrow> contactForm \<Rightarrow> store \<Rightarrow> (error + unit) \<times> store" where
  "contacts_handleSubmit draw t1 t2 formData s =
     (if \<not> isValidPhoneNumber (c_phone formData) then (Inl ValidationError, s)
      else
        let contactId = generateId ''contact'' draw;
            formattedPhone = formatPhoneNumber (c_phone formData);
            contactData =
              \<lparr>ct_id = contactId,
               ct_name = c_name formData,
               ct_phone = formattedPhone,
               ct_email = c_email formData,
               ct_associatedNodes = c_associatedNodes formData,
               ct_notificationPreference = c_notificationPreference formData,
               ct_createdAt = t1,
               ct_lastUpdated = t2\<rparr>
        in (Inr (), s\<lparr>contacts := AList.update contactId contactData (contacts s)\<rparr>))"

text \<open>\<^verbatim>\<open>handleDelete\<close> of the same page, once the dialog is confirmed.\<close>

definition contacts_handleDelete :: "string \<Rightarrow> store \<Rightarrow> store" where
  "contacts_handleDelete contactId s = s\<lparr>contacts := AList.delete contactId (contacts s)\<rparr>"

section \<open>Node registry\<close>

record formData =
  f_nodeId :: string
  f_type :: string
  f_name :: string
  f_latitude :: string
  f_longitude :: string
  f_altitude :: string
  f_installedBy :: string
  f_description :: string
  f_nearbyNodes :: string

text \<open>
  \<^verbatim>\<open>get(ref(database, `nodes/${nodeId}`)).exists()\<close>. With the empty identifier
  the path is \<^verbatim>\<open>nodes/\<close>, the collection itself.
\<close>

definition node_exists :: "store \<Rightarrow> string \<Rightarrow> bool" where
  "node_exists s nid = (if nid = [] then nodes s \<noteq> [] else map_of (nodes s) nid \<noteq> None)"

text \<open>
  \<^verbatim>\<open>validateForm\<close> of \<^verbatim>\<open>src/app/register/page.js\<close>: the error thrown, if any.
  An identifier with one of the characters \<^verbatim>\<open>. # $ [ ]\<close>, for which the client
  refuses to build the path before anything is read, is not modelled.
\<close>

definition validateForm :: "formData \<Rightarrow> store \<Rightarrow> error option" where
  "validateForm f s =
     (if node_exists s (f_nodeId f) then Some DuplicateIdError
      else if f_nodeId f = [] \<or> f_name f = [] then Some ValidationError
      else if f_latitude f = [] then Some ValidationError
      else if f_longitude f = [] then Some ValidationError
      else
        let lat = str_parseFloat (f_latitude f);
            lon = str_parseFloat (f_longitude f)
        in if isNaN (Number lat) then Some ValidationError
           else if isNaN (Number lon) then Some ValidationError
           else if \<not> isValidLatitude (Number lat) then Some ValidationError
           else if \<not> isValidLongitude (Number lon) then Some ValidationError
           else None)"

text \<open>\<^verbatim>\<open>s.split(d)\<close> for a one-character separator.\<close>

fun split :: "char \<Rightarrow> string \<Rightarrow> string list" where
  "split d [] = [] # []"
| "split d (c # cs) =
     (if c = d then [] # split d cs
      else case split d cs of
             [] \<Rightarrow> [c] # []
           | x # xs \<Rightarrow> (c # x) # xs)"

record regEnv =
  installedDate :: string
  createdAt :: int
  lastUpdateNow :: int

text \<open>
  \<^verbatim>\<open>handleSubmit\<close> of \<^verbatim>\<open>src/app/register/page.js\<close>, in four parts: the two
  records it builds, the read-back after the write, and the handler. The
  environment holds \<^verbatim>\<open>new Date().toISOString()\<close> and the two readings of
  \<^verbatim>\<open>Date.now()\<close>.
\<close>

definition parsedAltitude :: "formData \<Rightarrow> jsval" where
  "parsedAltitude f =
     (if f_altitude f \<noteq> [] then Number (str_parseFloat (f_altitude f)) else Null)"

definition nodeMetadata :: "regEnv \<Rightarrow> formData \<Rightarrow> obj" where
  "nodeMetadata env f =
     (let nearbyNodesArray =
            filter (\<lambda>i. length i > 0) (map trim (split CHR '','' (f_nearbyNodes f)));
          latitude = str_parseFloat (f_latitude f);
          longitude = str_parseFloat (f_longitude f);
          altitude = parsedAltitude f
      in [(''nodeId'', String (f_nodeId f)),
          (''type'', String (f_type f)),
          (''name'', String (f_name f)),
          (''latitude'', Number latitude),
          (''longitude'', Number longitude),
          (''altitude'', altitude),
          (''installedDate'', String (installedDate env)),
          (''installedBy'', String (if f_installedBy f \<noteq> [] then f_installedBy f else ''Unknown'')),
          (''description'', String (f_description f)),
          (''nearbyNodes'', Array (map String nearbyNodesArray)),
          (''status'', String ''active''),
          (''createdAt'', Number (Fin (real_of_int (createdAt env))))])"

definition nodeRealtime :: "regEnv \<Rightarrow> formData \<Rightarrow> obj" where
  "nodeRealtime env f =
     (let altitude = parsedAltitude f
      in [(''temperature'', Number (Fin 0)),
          (''pressure'', Number (Fin 0)),
          (''altitude'', (if truthy altitude then altitude else Number (Fin 0))),
          (''humidity'', (if f_type f = ''gateway'' then Number (Fin 0) else Null)),
          (''rssi'', (if f_type f = ''gateway'' then Null else Number (Fin 0))),
          (''status'', String ''offline''),
          (''lastUpdate'', String (show_int (lastUpdateNow env div 1000)))])"

text \<open>
  The verification after the write: the node is read back, and the handler
  throws when it is missing, when a coordinate is falsy, or when one is not of
  type number.
\<close>

definition verifySaved :: "string \<Rightarrow> store \<Rightarrow> error + unit" where
  "verifySaved nodeId s =
     (case map_of (nodes s) nodeId of
        None \<Rightarrow> Inl VerificationError
      | Some savedData \<Rightarrow>
          (case n_metadata savedData of
             None \<Rightarrow> Inl TypeError
           | Some m \<Rightarrow>
               if \<not> truthy (getprop m ''latitude'') \<or> \<not> truthy (getprop m ''longitude'')
               then Inl VerificationError
               else if typeof (getprop m ''latitude'') \<noteq> ''number'' \<or>
                       typeof (getprop m ''longitude'') \<noteq> ''number''
               then Inl VerificationError
               else Inr ()))"

definition register_handleSubmit ::
  "regEnv \<Rightarrow> formData \<Rightarrow> store \<Rightarrow> (error + unit) \<times> store" where
  "register_handleSubmit env f s =
     (case validateForm f s of
        Some e \<Rightarrow> (Inl e, s)
      | None \<Rightarrow>
          let latitude = str_parseFloat (f_latitude f);
              longitude = str_parseFloat (f_longitude f)
          in if isNaN (Number latitude) \<or> isNaN (Number longitude) then (Inl ValidationError, s)
             else
               let metadata = nodeMetadata env f;
                   realtime = nodeRealtime env f
               in if \<not> (fb_valid (Object metadata) \<and> fb_valid (Object realtime))
                  then (Inl StoreError, s)
                  else
                    let nodeData = \<lparr>n_metadata = Some (stored_obj metadata),
                                    n_realtime = Some (stored_obj realtime),
                                    n_history = [], n_alerts = []\<rparr>;
                        s' = s\<lparr>nodes := AList.update (f_nodeId f) nodeData (nodes s)\<rparr>
                    in (verifySaved (f_nodeId f) s', s'))"

section \<open>Notification dispatch\<close>

text \<open>
  The server side, \<^verbatim>\<open>POST /api/sms\<close> (\<^verbatim>\<open>src/app/api/sms/route.js\<close>). Its
  environment is the four variables it reads, whether the Twilio SDK can be
  imported, and the provider itself: \<open>create body from to\<close> stands for
  \<^verbatim>\<open>client.messages.create\<close> and gives either the status and sid of the message
  or the message and code of the error thrown.
\<close>

record smsEnv =
  NEXT_PUBLIC_TWILIO_ENABLED :: "string option"
  NEXT_PUBLIC_TWILIO_ACCOUNT_SID :: "string option"
  TWILIO_AUTH_TOKEN :: "string option"
  NEXT_PUBLIC_TWILIO_PHONE_NUMBER :: "string option"
  sdkInstalled :: bool
  create :: "string \<Rightarrow> string \<Rightarrow> jsval \<Rightarrow> (string \<times> jsval) + (string \<times> string)"

text \<open>An environment variable is falsy when unset or empty.\<close>

definition unset :: "string option \<Rightarrow> bool" where
  "unset v = (v = None \<or> v = Some [])"

text \<open>
  \<^verbatim>\<open>NextResponse.json\<close> and \<^verbatim>\<open>response.json()\<close>: a property whose value is
  \<^verbatim>\<open>undefined\<close> is left out; inside an array it becomes \<^verbatim>\<open>null\<close>, as does a
  number that is not finite.
\<close>

fun jsonify :: "jsval \<Rightarrow> jsval" where
  "jsonify (Object kvs) =
     Object (map (\<lambda>kv. (fst kv, jsonify (snd kv))) (filter (\<lambda>kv. snd kv \<noteq> Undefined) kvs))"
| "jsonify (Array xs) = Array (map (\<lambda>x. if x = Undefined then Null else jsonify x) xs)"
| "jsonify (Number (Fin x)) = Number (Fin x)"
| "jsonify (Number _) = Null"
| "jsonify v = v"

definition json_obj :: "obj \<Rightarrow> obj" where
  "json_obj ob = map (\<lambda>kv. (fst kv, jsonify (snd kv))) (filter (\<lambda>kv. snd kv \<noteq> Undefined) ob)"

text \<open>The loop over the recipients: the delivery results and the errors, in order.\<close>

fun deliver :: "smsEnv \<Rightarrow> string \<Rightarrow> string \<Rightarrow> jsval list \<Rightarrow> jsval list \<times> jsval list" where
  "deliver env body from [] = ([], [])"
| "deliver env body from (recipient # rest) =
     (let (deliveryResults, errors) = deliver env body from rest in
      case create env body from recipient of
        Inr (status, sid) \<Rightarrow>
          (Object [(''to'', recipient), (''status'', String status), (''sid'', String sid),
                   (''success'', Boolean True)] # deliveryResults,
           errors)
      | Inl (msg, code) \<Rightarrow>
          (Object [(''to'', recipient), (''status'', String ''failed''), (''error'', String msg),
                   (''success'', Boolean False)] # deliveryResults,
           Object [(''to'', recipient), (''error'', String msg), (''code'', code)] # errors))"

text \<open>
  The handler returns the HTTP status, the JSON body, and (for the properties
  below) the list of recipients a delivery was attempted to.
\<close>

definition sms_POST :: "smsEnv \<Rightarrow> obj \<Rightarrow> (nat \<times> obj) \<times> jsval list" where
  "sms_POST env req =
     (let recipients = getprop req ''recipients'';
          message = getprop req ''message''
      in case recipients of
           Array (r # rs) \<Rightarrow>
             (case message of
                String (c # cs) \<Rightarrow>
                  (let twilioEnabled = (NEXT_PUBLIC_TWILIO_ENABLED env = Some ''true'');
                       accountSid = NEXT_PUBLIC_TWILIO_ACCOUNT_SID env;
                       authToken = TWILIO_AUTH_TOKEN env;
                       fromNumber = NEXT_PUBLIC_TWILIO_PHONE_NUMBER env
                   in if \<not> twilioEnabled \<or> unset accountSid \<or> unset authToken \<or> unset fromNumber
                      then ((200, json_obj
                              [(''success'', Boolean False),
                               (''configured'', Boolean False),
                               (''message'',
                                  String ''SMS service not configured. Please set up Twilio credentials.''),
                               (''recipients'', Number (Fin (real (length (r # rs)))))]), [])
                      else if \<not> sdkInstalled env
                      then ((500, json_obj
                              [(''success'', Boolean False),
                               (''configured'', Boolean True),
                               (''error'', String ''Twilio SDK not installed. Run: npm install twilio''),
                               (''message'', String ''SMS service configuration incomplete'')]), [])
                      else
                        let (deliveryResults, errors) =
                              deliver env (c # cs) (case fromNumber of None \<Rightarrow> [] | Some n \<Rightarrow> n) (r # rs);
                            successCount =
                              length (filter (\<lambda>d. truthy (member d ''success'')) deliveryResults);
                            allSuccess = (length errors = 0);
                            partialSuccess = (successCount > 0 \<and> length errors > 0)
                        in ((200, json_obj
                              [(''success'', Boolean allSuccess),
                               (''partialSuccess'', Boolean partialSuccess),
                               (''configured'', Boolean True),
                               (''recipients'', Number (Fin (real (length (r # rs))))),
                               (''successCount'', Number (Fin (real successCount))),
                               (''failureCount'', Number (Fin (real (length errors)))),
                               (''message'',
                                  String (if allSuccess
                                    then ''SMS sent successfully to '' @ show_int (int successCount)
                                           @ '' recipient(s)''
                                    else if partialSuccess
                                    then ''SMS sent to '' @ show_int (int successCount)
                                           @ '' recipient(s), failed for ''
                                           @ show_int (int (length errors))
                                    else ''Failed to send SMS to all ''
                                           @ show_int (int (length (r # rs))) @ '' recipient(s)'')),
                               (''deliveryResults'', Array deliveryResults),
                               (''errors'', (if length errors > 0 then Array errors else Undefined))]),
                            r # rs))
              | _ \<Rightarrow>
                  ((400, json_obj [(''success'', Boolean False),
                                   (''error'', String ''Message is required'')]), []))
         | _ \<Rightarrow>
             ((400, json_obj [(''success'', Boolean False),
                              (''error'', String ''Recipients array is required'')]), []))"

text \<open>
  The provider is unconfigured: the condition under which the handler takes
  its \<^verbatim>\<open>configured: false\<close> branch.
\<close>

definition unconfigured :: "smsEnv \<Rightarrow> bool" where
  "unconfigured env =
     (NEXT_PUBLIC_TWILIO_ENABLED env \<noteq> Some ''true'' \<or>
      unset (NEXT_PUBLIC_TWILIO_ACCOUNT_SID env) \<or>
      unset (TWILIO_AUTH_TOKEN env) \<or>
      unset (NEXT_PUBLIC_TWILIO_PHONE_NUMBER env))"

text \<open>\<^verbatim>\<open>set\<close> on \<^verbatim>\<open>logs/{id}\<close> and \<^verbatim>\<open>notifications/{id}\<close>.\<close>

definition set_log :: "string \<Rightarrow> obj \<Rightarrow> store \<Rightarrow> error + store" where
  "set_log k ob s =
     (if fb_valid (Object ob) then Inr (s\<lparr>logs := fb_put k ob (logs s)\<rparr>) else Inl StoreError)"

definition set_notification :: "string \<Rightarrow> obj \<Rightarrow> store \<Rightarrow> error + store" where
  "set_notification k ob s =
     (if fb_valid (Object ob) then Inr (s\<lparr>notifications := fb_put k ob (notifications s)\<rparr>)
      else Inl StoreError)"

text \<open>\<^verbatim>\<open>xs.join(sep)\<close> on strings.\<close>

fun join :: "string \<Rightarrow> string list \<Rightarrow> string" where
  "join sep [] = []"
| "join sep [x] = x"
| "join sep (x # y # ys) = x @ sep @ join sep (y # ys)"

record smsDraws =
  sd_notification :: "int \<times> string"
  sd_timestamp :: int
  sd_log :: "int \<times> string"

text \<open>The text of the error the store client throws for a value it refuses.\<close>

definition store_error_message :: string where
  "store_error_message = ''set failed: value argument contains an invalid value''"

text \<open>
  The \<^verbatim>\<open>catch\<close> block of \<^verbatim>\<open>sendSMSNotification\<close>. Its own write is outside any
  \<^verbatim>\<open>try\<close>: were it refused, the error would leave the function.
\<close>

definition sms_catch ::
  "smsDraws \<Rightarrow> string list \<Rightarrow> string \<Rightarrow> store \<Rightarrow> (error + obj) \<times> store" where
  "sms_catch d recipients alertId s =
     (let logId = generateId ''log'' (sd_log d) in
      case set_log logId
             [(''id'', String logId),
              (''type'', String ''sms_failed''),
              (''message'', String (''SMS notification failed: '' @ store_error_message)),
              (''timestamp'', Number (Fin (real_of_int (sd_timestamp d)))),
              (''metadata'', Object [(''alertId'', String alertId),
                                      (''recipients'', Number (Fin (real (length recipients)))),
                                      (''error'', String store_error_message)])] s of
        Inl e \<Rightarrow> (Inl e, s)
      | Inr s' \<Rightarrow>
          (Inr [(''success'', Boolean False),
                (''configured'', Boolean False),
                (''error'', String store_error_message),
                (''message'', String ''Failed to send SMS notification'')], s'))"

text \<open>
  \<^verbatim>\<open>sendSMSNotification\<close> of \<^verbatim>\<open>src/lib/notifications.js\<close>. The \<^verbatim>\<open>fetch\<close> is the
  call of the handler above. The result is what the function returns, or the
  error that leaves it, with the store and the recipients a delivery was
  attempted to.
\<close>

definition sendSMSNotification ::
  "smsEnv \<Rightarrow> smsDraws \<Rightarrow> string list \<Rightarrow> string \<Rightarrow> string \<Rightarrow> string \<Rightarrow> store
     \<Rightarrow> ((error + obj) \<times> store) \<times> jsval list" where
  "sendSMSNotification env d recipients message alertId severity s =
     (let notificationId = generateId ''notification'' (sd_notification d);
          timestamp = Number (Fin (real_of_int (sd_timestamp d)));
          (response, attempted) =
             sms_POST env [(''recipients'', Array (map String recipients)),
                           (''message'', String message),
                           (''alertId'', String alertId),
                           (''severity'', String severity)];
          result = snd response
      in if \<not> truthy (getprop result ''configured'') then
           (let notificationData =
                  [(''id'', String notificationId),
                   (''type'', String ''sms''),
                   (''status'', String ''pending''),
                   (''alertId'', String alertId),
                   (''severity'', String severity),
                   (''message'', String message),
                   (''recipients'', Array (map String recipients)),
                   (''timestamp'', timestamp),
                   (''method'', String ''twilio''),
                   (''deliveryStatus'', String ''not_configured''),
                   (''note'', String (''SMS service not configured. Would send to: ''
                                        @ join '', '' recipients))]
            in case set_notification notificationId notificationData s of
                 Inl e \<Rightarrow> (sms_catch d recipients alertId s, attempted)
               | Inr s1 \<Rightarrow>
                   (let logId = generateId ''log'' (sd_log d) in
                    case set_log logId
                           [(''id'', String logId),
                            (''type'', String ''sms_pending''),
                            (''message'',
                               String (''SMS notification logged (not sent - Twilio not configured). Recipients: ''
                                         @ show_int (int (length recipients)))),
                            (''timestamp'', timestamp),
                            (''metadata'',
                               Object [(''notificationId'', String notificationId),
                                       (''alertId'', String alertId),
                                       (''recipients'', Number (Fin (real (length recipients))))])]
                           s1 of
                      Inl e \<Rightarrow> (sms_catch d recipients alertId s1, attempted)
                    | Inr s2 \<Rightarrow>
                        ((Inr [(''success'', Boolean False),
                               (''configured'', Boolean False),
                               (''notificationId'', String notificationId),
                               (''recipients'', Number (Fin (real (length recipients)))),
                               (''message'',
                                  (if truthy (getprop result ''message'') then getprop result ''message''
                                   else String ''SMS service not configured. Notification logged for future delivery.'')),
                               (''details'', Object notificationData)], s2),
                         attempted)))
         else
           (let deliveryResults =
                  (if truthy (getprop result ''deliveryResults'') then getprop result ''deliveryResults''
                   else Array []);
                outcome = (\<lambda>a b c. if truthy (getprop result ''success'') then a
                                    else if truthy (getprop result ''partialSuccess'') then b else c);
                notificationData =
                  [(''id'', String notificationId),
                   (''type'', String ''sms''),
                   (''status'', String (outcome ''sent'' ''partial'' ''failed'')),
                   (''alertId'', String alertId),
                   (''severity'', String severity),
                   (''message'', String message),
                   (''recipients'', Array (map String recipients)),
                   (''timestamp'', timestamp),
                   (''method'', String ''twilio''),
                   (''deliveryStatus'', String (outcome ''delivered'' ''partial'' ''failed'')),
                   (''deliveryResults'', deliveryResults),
                   (''successCount'', getprop result ''successCount''),
                   (''failureCount'', getprop result ''failureCount''),
                   (''errors'', getprop result ''errors'')]
            in case set_notification notificationId notificationData s of
                 Inl e \<Rightarrow> (sms_catch d recipients alertId s, attempted)
               | Inr s1 \<Rightarrow>
                   (let logId = generateId ''log'' (sd_log d) in
                    case set_log logId
                           [(''id'', String logId),
                            (''type'', String (outcome ''sms_sent'' ''sms_partial'' ''sms_failed'')),
                            (''message'', getprop result ''message''),
                            (''timestamp'', timestamp),
                            (''metadata'',
                               Object [(''notificationId'', String notificationId),
                                       (''alertId'', String alertId),
                                       (''recipients'', Number (Fin (real (length recipients)))),
                                       (''successCount'', getprop result ''successCount''),
                                       (''failureCount'', getprop result ''failureCount'')])]
                           s1 of
                      Inl e \<Rightarrow> (sms_catch d recipients alertId s1, attempted)
                    | Inr s2 \<Rightarrow>
                        ((Inr [(''success'', getprop result ''success''),
                               (''configured'', Boolean True),
                               (''notificationId'', String notificationId),
                               (''recipients'', Number (Fin (real (length recipients)))),
                               (''message'', getprop result ''message''),
                               (''details'', Object notificationData),
                               (''partialSuccess'', getprop result ''partialSuccess''),
                               (''errors'', getprop result ''errors'')], s2),
                         attempted))))"

text \<open>
  \<^verbatim>\<open>sendInAppNotification\<close> of the same file; it catches its own errors and
  reports them in the result.
\<close>

definition sendInAppNotification ::
  "int \<times> string \<Rightarrow> int \<Rightarrow> string \<Rightarrow> string \<Rightarrow> string \<Rightarrow> string list \<Rightarrow> store \<Rightarrow> obj \<times> store" where
  "sendInAppNotification draw t alertId message severity affectedNodes s =
     (let notificationId = generateId ''notification'' draw;
          notificationData =
            [(''id'', String notificationId),
             (''type'', String ''in_app''),
             (''status'', String ''unread''),
             (''alertId'', String alertId),
             (''severity'', String severity),
             (''message'', String message),
             (''affectedNodes'', Array (map String affectedNodes)),
             (''timestamp'', Number (Fin (real_of_int t))),
             (''expiresAt'', Number (Fin (real_of_int (t + 7 * 24 * 60 * 60 * 1000)))),
             (''readBy'', Array [])]
      in case set_notification notificationId notificationData s of
           Inl e \<Rightarrow> ([(''success'', Boolean False), (''error'', String store_error_message)], s)
         | Inr s' \<Rightarrow>
             ([(''success'', Boolean True),
               (''notificationId'', String notificationId),
               (''message'', String ''In-app notification created'')], s'))"

section \<open>Alert dispatcher\<close>

text \<open>
  The effect of \<^verbatim>\<open>src/app/admin/page.js\<close> that recomputes \<^verbatim>\<open>recipients\<close> whenever
  the selected nodes or the contacts change. \<^verbatim>\<open>Object.values(contacts)\<close> is the
  list of the stored contacts.
\<close>

definition computeRecipients :: "string list \<Rightarrow> (string \<times> contact) list \<Rightarrow> contact list" where
  "computeRecipients affectedNodes cs =
     (if length affectedNodes = 0 then []
      else filter (\<lambda>contact. list_ex (\<lambda>nodeId. nodeId \<in> set affectedNodes)
                               (ct_associatedNodes contact))
             (map snd cs))"

record alertForm =
  af_message :: string
  af_severity :: string
  af_affectedNodes :: "string list"
  af_sendSMS :: bool

record alertDraws =
  ad_alert :: "int \<times> string"
  ad_now :: int
  ad_log :: "int \<times> string"
  ad_sms :: smsDraws
  ad_inApp :: "int \<times> string"
  ad_inAppTime :: int

definition set_alert :: "string \<Rightarrow> obj \<Rightarrow> store \<Rightarrow> error + store" where
  "set_alert k ob s =
     (if fb_valid (Object ob) then Inr (s\<lparr>alerts := fb_put k ob (alerts s)\<rparr>) else Inl StoreError)"

text \<open>
  \<^verbatim>\<open>set\<close> on \<^verbatim>\<open>nodes/{nodeId}/alerts/{alertId}\<close>. Where the node has no record the
  write creates one that holds the back-reference only.
\<close>

definition set_node_alert :: "string \<Rightarrow> string \<Rightarrow> obj \<Rightarrow> store \<Rightarrow> error + store" where
  "set_node_alert nodeId alertId ob s =
     (if \<not> fb_valid (Object ob) then Inl StoreError
      else
        let n = (case map_of (nodes s) nodeId of
                   None \<Rightarrow> \<lparr>n_metadata = None, n_realtime = None, n_history = [], n_alerts = []\<rparr>
                 | Some n \<Rightarrow> n)
        in Inr (s\<lparr>nodes := AList.update nodeId (n\<lparr>n_alerts := fb_put alertId ob (n_alerts n)\<rparr>)
                               (nodes s)\<rparr>))"

text \<open>What is stored at \<^verbatim>\<open>nodes/{nodeId}/alerts/{alertId}\<close>, if anything.\<close>

definition backref :: "store \<Rightarrow> string \<Rightarrow> string \<Rightarrow> obj option" where
  "backref s nodeId alertId =
     (case map_of (nodes s) nodeId of
        None \<Rightarrow> None
      | Some nd \<Rightarrow> map_of (n_alerts nd) alertId)"

text \<open>The \<^verbatim>\<open>for\<close> loop over the affected nodes; a refused write ends it.\<close>

fun link_alert :: "string list \<Rightarrow> string \<Rightarrow> obj \<Rightarrow> store \<Rightarrow> (error + unit) \<times> store" where
  "link_alert [] alertId ob s = (Inr (), s)"
| "link_alert (nodeId # rest) alertId ob s =
     (case set_node_alert nodeId alertId ob s of
        Inl e \<Rightarrow> (Inl e, s)
      | Inr s' \<Rightarrow> link_alert rest alertId ob s')"

text \<open>\<^verbatim>\<open>toUpperCase\<close> on the letters a to z; other characters are kept.\<close>

definition toUpperCase :: "string \<Rightarrow> string" where
  "toUpperCase s =
     map (\<lambda>c. if 97 \<le> (of_char c :: int) \<and> (of_char c :: int) \<le> 122
               then char_of ((of_char c :: int) - 32) else c) s"

text \<open>
  \<^verbatim>\<open>handleCreateAlert\<close> of \<^verbatim>\<open>src/app/admin/page.js\<close>. \<open>recipients\<close> is the
  component's state of that name. A validation failure shows a message and
  returns; it is reported here as ValidationError. The toasts and the
  confirmation dialog are not modelled.
\<close>

definition handleCreateAlert ::
  "smsEnv \<Rightarrow> alertDraws \<Rightarrow> alertForm \<Rightarrow> contact list \<Rightarrow> store \<Rightarrow> (error + unit) \<times> store" where
  "handleCreateAlert env d alertForm recipients s =
     (if length (af_message alertForm) > 500 then (Inl ValidationError, s)
      else if length (af_affectedNodes alertForm) = 0 then (Inl ValidationError, s)
      else
        let alertId = generateId ''alert'' (ad_alert d);
            recipientPhones = map ct_phone recipients;
            now = Number (Fin (real_of_int (ad_now d)));
            alertData =
              [(''id'', String alertId),
               (''type'', String ''manual''),
               (''severity'', String (af_severity alertForm)),
               (''message'', String (af_message alertForm)),
               (''affectedNodes'', Array (map String (af_affectedNodes alertForm))),
               (''timestamp'', now),
               (''acknowledged'', Boolean False),
               (''acknowledgedBy'', Null),
               (''acknowledgedAt'', Null),
               (''sentSMS'', Boolean (af_sendSMS alertForm)),
               (''smsSentAt'', (if af_sendSMS alertForm then now else Null)),
               (''recipients'', Array (map String recipientPhones)),
               (''createdBy'', String ''analytical''),
               (''source'', String ''analytical_panel'')]
        in case set_alert alertId alertData s of
             Inl e \<Rightarrow> (Inl e, s)
           | Inr s1 \<Rightarrow>
               if map_of (alerts s1) alertId = None then (Inl VerificationError, s1)
               else
                 (case link_alert (af_affectedNodes alertForm) alertId
                         [(''alertId'', String alertId),
                          (''severity'', String (af_severity alertForm)),
                          (''timestamp'', now),
                          (''acknowledged'', Boolean False)] s1 of
                    (Inl e, s2) \<Rightarrow> (Inl e, s2)
                  | (Inr _, s2) \<Rightarrow>
                      (let logId = generateId ''log'' (ad_log d) in
                       case set_log logId
                              [(''id'', String logId),
                               (''type'', String ''alert_triggered''),
                               (''message'',
                                  String (''Manual alert created affecting ''
                                    @ show_int (int (length (af_affectedNodes alertForm)))
                                    @ '' node(s): '' @ [CHR 0x22] @ take 50 (af_message alertForm)
                                    @ (if length (af_message alertForm) > 50 then ''...'' else [])
                                    @ [CHR 0x22])),
                               (''timestamp'', now),
                               (''metadata'',
                                  Object [(''alertId'', String alertId),
                                          (''affectedNodes'',
                                             Array (map String (af_affectedNodes alertForm))),
                                          (''severity'', String (af_severity alertForm)),
                                          (''recipients'',
                                             Number (Fin (real (length recipientPhones))))])]
                              s2 of
                         Inl e \<Rightarrow> (Inl e, s2)
                       | Inr s3 \<Rightarrow>
                           (case (if af_sendSMS alertForm \<and> length recipientPhones > 0
                                  then fst (sendSMSNotification env (ad_sms d) recipientPhones
                                              (''['' @ toUpperCase (af_severity alertForm) @ ''] ''
                                                 @ af_message alertForm)
                                              alertId (af_severity alertForm) s3)
                                  else (Inr [], s3)) of
                              (Inl e, s4) \<Rightarrow> (Inl e, s4)
                            | (Inr smsResult, s4) \<Rightarrow>
                                (Inr (),
                                 snd (sendInAppNotification (ad_inApp d) (ad_inAppTime d) alertId
                                        (af_message alertForm) (af_severity alertForm)
                                        (af_affectedNodes alertForm) s4))))))"

section \<open>Alerts page\<close>

text \<open>
  \<^verbatim>\<open>handleAcknowledge\<close> of \<^verbatim>\<open>src/app/alerts/page.js\<close>: an \<^verbatim>\<open>update\<close> of three
  properties of \<^verbatim>\<open>alerts/{alertId}\<close>, whatever is there.
\<close>

definition handleAcknowledge :: "int \<Rightarrow> string \<Rightarrow> store \<Rightarrow> store" where
  "handleAcknowledge now alertId s =
     s\<lparr>alerts :=
         AList.update alertId
           (fb_merge (case map_of (alerts s) alertId of None \<Rightarrow> [] | Some a \<Rightarrow> a)
              [(''acknowledged'', Boolean True),
               (''acknowledgedBy'', String ''analytical''),
               (''acknowledgedAt'', Number (Fin (real_of_int now)))])
           (alerts s)\<rparr>"

record manualAlertForm =
  ma_nodeId :: string
  ma_severity :: string
  ma_message :: string

text \<open>\<^verbatim>\<open>handleSendManualAlert\<close> of the same page; \<open>cs\<close> is its \<^verbatim>\<open>contacts\<close> state.\<close>

definition handleSendManualAlert ::
  "int \<times> string \<Rightarrow> int \<Rightarrow> manualAlertForm \<Rightarrow> (string \<times> contact) list \<Rightarrow> store
     \<Rightarrow> (error + unit) \<times> store" where
  "handleSendManualAlert draw now manualAlertForm cs s =
     (let alertId = generateId ''alert'' draw;
          nodeContacts = filter (\<lambda>contact. ma_nodeId manualAlertForm \<in> set (ct_associatedNodes contact))
                           (map snd cs);
          recipients = map ct_phone nodeContacts;
          alertData =
            [(''id'', String alertId),
             (''nodeId'', String (ma_nodeId manualAlertForm)),
             (''type'', String ''manual''),
             (''severity'', String (ma_severity manualAlertForm)),
             (''message'', String (ma_message manualAlertForm)),
             (''timestamp'', Number (Fin (real_of_int now))),
             (''acknowledged'', Boolean False),
             (''acknowledgedBy'', Null),
             (''acknowledgedAt'', Null),
             (''sentSMS'', Boolean False),
             (''smsSentAt'', Null),
             (''recipients'', Array (map String recipients))]
      in case set_alert alertId alertData s of
           Inl e \<Rightarrow> (Inl e, s)
         | Inr s' \<Rightarrow> (Inr (), s'))"

section \<open>Administrative operations\<close>

text \<open>\<^verbatim>\<open>handleDeleteNode\<close>: the node's whole subtree goes, then a log entry is written.\<close>

definition handleDeleteNode ::
  "int \<times> string \<Rightarrow> int \<Rightarrow> string \<Rightarrow> store \<Rightarrow> (error + unit) \<times> store" where
  "handleDeleteNode draw now nodeToDelete s =
     (let s1 = s\<lparr>nodes := AList.delete nodeToDelete (nodes s)\<rparr>;
          logId = generateId ''log'' draw
      in case set_log logId
                [(''id'', String logId),
                 (''type'', String ''node_deletion''),
                 (''message'', String (''Node '' @ nodeToDelete @ '' was deleted'')),
                 (''timestamp'', Number (Fin (real_of_int now))),
                 (''metadata'', Object [(''nodeId'', String nodeToDelete)])] s1 of
           Inl e \<Rightarrow> (Inl e, s1)
         | Inr s2 \<Rightarrow> (Inr (), s2))"

text \<open>
  The parsed file of \<^verbatim>\<open>confirmImportData\<close>: each of the three collections is
  present (and then replaces the stored one) or not. The keys of the file are
  taken to be keys the store accepts.
\<close>

record importPreview =
  imp_nodes :: "(string \<times> node) list option"
  imp_alerts :: "(string \<times> obj) list option"
  imp_contacts :: "(string \<times> contact) list option"

definition stored_collection :: "(string \<times> obj) list \<Rightarrow> (string \<times> obj) list" where
  "stored_collection c =
     filter (\<lambda>kv. snd kv \<noteq> []) (map (\<lambda>kv. (fst kv, stored_obj (snd kv))) c)"

definition confirmImportData ::
  "int \<times> string \<Rightarrow> int \<Rightarrow> importPreview \<Rightarrow> store \<Rightarrow> (error + unit) \<times> store" where
  "confirmImportData draw now imp s =
     (let s1 = (case imp_nodes imp of None \<Rightarrow> s | Some n \<Rightarrow> s\<lparr>nodes := n\<rparr>);
          s2 = (case imp_alerts imp of None \<Rightarrow> s1 | Some a \<Rightarrow> s1\<lparr>alerts := stored_collection a\<rparr>);
          s3 = (case imp_contacts imp of None \<Rightarrow> s2 | Some c \<Rightarrow> s2\<lparr>contacts := c\<rparr>);
          logId = generateId ''log'' draw
      in case set_log logId
                [(''id'', String logId),
                 (''type'', String ''data_import''),
                 (''message'', String ''Historical data was imported''),
                 (''timestamp'', Number (Fin (real_of_int now)))] s3 of
           Inl e \<Rightarrow> (Inl e, s3)
         | Inr s4 \<Rightarrow> (Inr (), s4))"

text \<open>\<^verbatim>\<open>handleResetSystem\<close>, with the text typed into the confirmation field.\<close>

definition handleResetSystem :: "string \<Rightarrow> store \<Rightarrow> (error + unit) \<times> store" where
  "handleResetSystem resetConfirmText s =
     (if resetConfirmText \<noteq> ''DELETE'' then (Inl ValidationError, s)
      else (Inr (), s\<lparr>nodes := [], alerts := [], contacts := [], logs := []\<rparr>))"

section \<open>Sequences of operations\<close>

text \<open>
  The operations of the pages that write under \<^verbatim>\<open>alerts\<close>, \<^verbatim>\<open>contacts\<close> or a
  node's record, each with the inputs it reads. (Editing a node's metadata, the
  history clean-up, the settings page and the sensor simulator write only
  below \<^verbatim>\<open>nodes/{id}/metadata\<close>, \<^verbatim>\<open>realtime\<close>, \<^verbatim>\<open>history\<close> and \<^verbatim>\<open>settings\<close>, and are
  left out.)
\<close>

datatype operation =
    RegisterNode regEnv formData
  | DeleteNode "int \<times> string" int string
  | AddContact "int \<times> string" int int contactForm
  | DeleteContact string
  | CreateAlert smsEnv alertDraws alertForm
  | SendManualAlert "int \<times> string" int manualAlertForm
  | Acknowledge int string
  | ImportData "int \<times> string" int importPreview
  | ResetSystem string

text \<open>
  One operation on the store. The admin page's \<^verbatim>\<open>recipients\<close> state is the one
  its effect computed from the stored contacts.
\<close>

fun step :: "operation \<Rightarrow> store \<Rightarrow> store" where
  "step (RegisterNode env f) s = snd (register_handleSubmit env f s)"
| "step (DeleteNode draw now nodeId) s = snd (handleDeleteNode draw now nodeId s)"
| "step (AddContact draw t1 t2 f) s = snd (contacts_handleSubmit draw t1 t2 f s)"
| "step (DeleteContact contactId) s = contacts_handleDelete contactId s"
| "step (CreateAlert env d f) s =
     snd (handleCreateAlert env d f (computeRecipients (af_affectedNodes f) (contacts s)) s)"
| "step (SendManualAlert draw now f) s = snd (handleSendManualAlert draw now f (contacts s) s)"
| "step (Acknowledge now alertId) s = handleAcknowledge now alertId s"
| "step (ImportData draw now imp) s = snd (confirmImportData draw now imp s)"
| "step (ResetSystem txt) s = snd (handleResetSystem txt s)"

definition run :: "operation list \<Rightarrow> store \<Rightarrow> store" where
  "run ops s = foldl (\<lambda>st op. step op st) s ops"

text \<open>The alert with this identifier exists and its \<^verbatim>\<open>acknowledged\<close> is \<^verbatim>\<open>true\<close>.\<close>

definition acknowledged :: "store \<Rightarrow> string \<Rightarrow> bool" where
  "acknowledged s alertId =
     (case map_of (alerts s) alertId of
        None \<Rightarrow> False
      | Some a \<Rightarrow> getprop a ''acknowledged'' = Boolean True)"

text \<open>The alert with this identifier is not stored, or its \<^verbatim>\<open>acknowledged\<close> is \<^verbatim>\<open>true\<close>.\<close>

definition settled :: "store \<Rightarrow> string \<Rightarrow> bool" where
  "settled s alertId =
     (case map_of (alerts s) alertId of
        None \<Rightarrow> True
      | Some a \<Rightarrow> getprop a ''acknowledged'' = Boolean True)"

text \<open>
  The operation cannot replace the alert with this identifier by another
  record: it is no import of an alerts collection, and when it creates an
  alert the identifier it draws is another one.
\<close>

fun spares :: "string \<Rightarrow> operation \<Rightarrow> bool" where
  "spares alertId (CreateAlert env d f) = (generateId ''alert'' (ad_alert d) \<noteq> alertId)"
| "spares alertId (SendManualAlert draw now f) = (generateId ''alert'' draw \<noteq> alertId)"
| "spares alertId (ImportData draw now imp) = (imp_alerts imp = None)"
| "spares alertId _ = True"

text \<open>A reset with the confirmation text typed in, which removes every alert.\<close>

fun confirmedReset :: "operation \<Rightarrow> bool" where
  "confirmedReset (ResetSystem txt) = (txt = ''DELETE'')"
| "confirmedReset _ = False"

section \<open>Properties of the store primitives\<close>

lemma fb_valid_strings: "list_all fb_valid (map String xs)"
  by (induction xs) simp_all

lemma fb_valid_strings_comp: "list_all fb_valid (map (String \<circ> g) xs)"
  by (induction xs) simp_all

lemma stored_strings: "map stored (map String xs) = map String xs"
  by (induction xs) simp_all

lemma map_of_fb_put:
  "map_of (fb_put k ob coll) k' =
     (if k' = k then (if stored_obj ob = [] then None else Some (stored_obj ob))
      else map_of coll k')"
  by (simp add: fb_put_def update_conv' delete_conv')

section \<open>Contact phone numbers\<close>

lemma startsWith_split: "startsWith s p \<Longrightarrow> s = p @ drop (length p) s"
  by (metis append_take_drop_id startsWith_def)

lemma is_digit_cleaned: "\<forall>c \<in> set (cleaned p). is_digit c"
  by (simp add: cleaned_def)

lemma valid_phone_shape:
  assumes "isValidPhoneNumber p"
  shows "\<exists>x. length x = 10 \<and> (\<forall>c \<in> set x. is_digit c) \<and> formatPhoneNumber p = ''+91'' @ x"
proof (cases "length (cleaned p) = 10")
  case True
  then show ?thesis
    using is_digit_cleaned[of p] by (auto simp: formatPhoneNumber_def Let_def)
next
  case False
  with assms have l: "length (cleaned p) = 12" and pre: "startsWith (cleaned p) ''91''"
    by (auto simp: isValidPhoneNumber_def Let_def)
  from startsWith_split[OF pre] have eq: "cleaned p = ''91'' @ drop 2 (cleaned p)"
    by (simp add: numeral_2_eq_2)
  have d: "\<forall>c \<in> set (drop 2 (cleaned p)). is_digit c"
    using is_digit_cleaned[of p] by (meson in_set_dropD)
  have "formatPhoneNumber p = ''+'' @ cleaned p"
    using l pre by (simp add: formatPhoneNumber_def Let_def)
  also have "\<dots> = ''+91'' @ drop 2 (cleaned p)"
    using eq by (metis append_Cons append_Nil)
  finally show ?thesis
    using l d by (intro exI[of _ "drop 2 (cleaned p)"]) simp
qed

lemma contact_written:
  assumes "isValidPhoneNumber (c_phone f)"
  shows "contacts_handleSubmit d t1 t2 f s =
           (Inr (), s\<lparr>contacts := AList.update (generateId ''contact'' d)
              \<lparr>ct_id = generateId ''contact'' d,
               ct_name = c_name f,
               ct_phone = formatPhoneNumber (c_phone f),
               ct_email = c_email f,
               ct_associatedNodes = c_associatedNodes f,
               ct_notificationPreference = c_notificationPreference f,
               ct_createdAt = t1,
               ct_lastUpdated = t2\<rparr> (contacts s)\<rparr>)"
  using assms by (simp add: contacts_handleSubmit_def Let_def)

lemma is_digit_chars: "is_digit c \<longleftrightarrow> c \<in> set ''0123456789''"
proof
  assume d: "is_digit c"
  define n where "n = (of_char c :: int)"
  have c: "c = char_of n"
    by (simp add: n_def)
  from d have "n \<in> {48, 49, 50, 51, 52, 53, 54, 55, 56, 57}"
    unfolding is_digit_def n_def[symmetric] by (simp; presburger)
  then show "c \<in> set ''0123456789''"
    unfolding c by (elim insertE emptyE) (simp_all add: char_of_def)
next
  assume "c \<in> set ''0123456789''"
  then show "is_digit c"
    by (auto simp: is_digit_def)
qed

lemma format_ten: "length (cleaned p) = 10 \<Longrightarrow> formatPhoneNumber p = ''+91'' @ cleaned p"
  by (simp add: formatPhoneNumber_def Let_def)

lemma format_twelve:
  assumes l: "length (cleaned p) = 12" and pre: "startsWith (cleaned p) ''91''"
  shows "formatPhoneNumber p = ''+'' @ cleaned p"
    and "formatPhoneNumber p = ''+91'' @ drop 2 (cleaned p)"
proof -
  show a: "formatPhoneNumber p = ''+'' @ cleaned p"
    using l pre by (simp add: formatPhoneNumber_def Let_def)
  from startsWith_split[OF pre] have "cleaned p = ''91'' @ drop 2 (cleaned p)"
    by (simp add: numeral_2_eq_2)
  then show "formatPhoneNumber p = ''+91'' @ drop 2 (cleaned p)"
    unfolding a by (metis append_Cons append_Nil)
qed

text \<open>
  Claim C6. With \<open>cleaned p\<close> the characters 0 to 9 of \<open>p\<close> in their order, a
  phone number passes validation exactly when \<open>cleaned p\<close> has 10 digits, or 12
  digits that start with 91. Normalisation gives \<^verbatim>\<open>+91\<close> followed by \<open>cleaned p\<close>
  in the first case and \<^verbatim>\<open>+\<close> followed by \<open>cleaned p\<close> in the second, so in
  both \<^verbatim>\<open>+91\<close> and the last ten digits of the input; the two example numbers
  give \<^verbatim>\<open>+919876543210\<close>. Submitting the contact form with an invalid number
  fails with ValidationError and leaves the store as it was; with a valid
  number the contact is stored under the generated identifier and its phone is
  the normalised number.
\<close>

theorem contact_phone_validation:
  "cleaned (c_phone f) = filter (\<lambda>c. c \<in> set ''0123456789'') (c_phone f)
   \<and> (isValidPhoneNumber (c_phone f) \<longleftrightarrow>
      length (cleaned (c_phone f)) = 10 \<or>
      (length (cleaned (c_phone f)) = 12 \<and> startsWith (cleaned (c_phone f)) ''91''))
   \<and> (length (cleaned (c_phone f)) = 10 \<longrightarrow>
        formatPhoneNumber (c_phone f) = ''+91'' @ cleaned (c_phone f))
   \<and> (length (cleaned (c_phone f)) = 12 \<and> startsWith (cleaned (c_phone f)) ''91'' \<longrightarrow>
        formatPhoneNumber (c_phone f) = ''+'' @ cleaned (c_phone f) \<and>
        formatPhoneNumber (c_phone f) = ''+91'' @ drop 2 (cleaned (c_phone f)))
   \<and> formatPhoneNumber ''9876543210'' = ''+919876543210''
   \<and> formatPhoneNumber ''919876543210'' = ''+919876543210''
   \<and> (\<not> isValidPhoneNumber (c_phone f) \<longrightarrow>
        contacts_handleSubmit d t1 t2 f s = (Inl ValidationError, s))
   \<and> (isValidPhoneNumber (c_phone f) \<longrightarrow>
        fst (contacts_handleSubmit d t1 t2 f s) = Inr ()
        \<and> map_option ct_phone
             (map_of (contacts (snd (contacts_handleSubmit d t1 t2 f s)))
                (generateId ''contact'' d)) = Some (formatPhoneNumber (c_phone f))
        \<and> length (formatPhoneNumber (c_phone f)) = 13
        \<and> take 3 (formatPhoneNumber (c_phone f)) = ''+91''
        \<and> drop 3 (formatPhoneNumber (c_phone f)) =
            drop (length (cleaned (c_phone f)) - 10) (cleaned (c_phone f)))"
proof (intro conjI impI)
  show "cleaned (c_phone f) = filter (\<lambda>c. c \<in> set ''0123456789'') (c_phone f)"
    unfolding cleaned_def by (rule filter_cong) (simp_all only: is_digit_chars)
  show "isValidPhoneNumber (c_phone f) \<longleftrightarrow>
      length (cleaned (c_phone f)) = 10 \<or>
      (length (cleaned (c_phone f)) = 12 \<and> startsWith (cleaned (c_phone f)) ''91'')"
    by (simp add: isValidPhoneNumber_def Let_def)
  show "formatPhoneNumber (c_phone f) = ''+91'' @ cleaned (c_phone f)"
    if "length (cleaned (c_phone f)) = 10"
    using that by (rule format_ten)
  show "formatPhoneNumber (c_phone f) = ''+'' @ cleaned (c_phone f)"
    if "length (cleaned (c_phone f)) = 12 \<and> startsWith (cleaned (c_phone f)) ''91''"
    using that format_twelve(1) by blast
  show "formatPhoneNumber (c_phone f) = ''+91'' @ drop 2 (cleaned (c_phone f))"
    if "length (cleaned (c_phone f)) = 12 \<and> startsWith (cleaned (c_phone f)) ''91''"
    using that format_twelve(2) by blast
  show "formatPhoneNumber ''9876543210'' = ''+919876543210''"
    by (simp add: formatPhoneNumber_def cleaned_def is_digit_def Let_def)
  show "formatPhoneNumber ''919876543210'' = ''+919876543210''"
    by (simp add: formatPhoneNumber_def cleaned_def is_digit_def Let_def startsWith_def)
  show "contacts_handleSubmit d t1 t2 f s = (Inl ValidationError, s)"
    if "\<not> isValidPhoneNumber (c_phone f)"
    using that by (simp add: contacts_handleSubmit_def)
next
  assume v: "isValidPhoneNumber (c_phone f)"
  show "fst (contacts_handleSubmit d t1 t2 f s) = Inr ()"
    by (simp add: contact_written[OF v])
  show "map_option ct_phone
             (map_of (contacts (snd (contacts_handleSubmit d t1 t2 f s)))
                (generateId ''contact'' d)) = Some (formatPhoneNumber (c_phone f))"
    by (simp add: contact_written[OF v] update_conv')
  have shape: "formatPhoneNumber (c_phone f) =
      ''+91'' @ drop (length (cleaned (c_phone f)) - 10) (cleaned (c_phone f))
    \<and> length (drop (length (cleaned (c_phone f)) - 10) (cleaned (c_phone f))) = 10"
  proof (cases "length (cleaned (c_phone f)) = 10")
    case True
    then show ?thesis by (simp add: format_ten)
  next
    case False
    with v have l: "length (cleaned (c_phone f)) = 12"
      and pre: "startsWith (cleaned (c_phone f)) ''91''"
      by (auto simp: isValidPhoneNumber_def Let_def)
    from format_twelve(2)[OF l pre] l show ?thesis by simp
  qed
  from shape show "length (formatPhoneNumber (c_phone f)) = 13" by simp
  from shape show "take 3 (formatPhoneNumber (c_phone f)) = ''+91''" by simp
  from shape show "drop 3 (formatPhoneNumber (c_phone f)) =
            drop (length (cleaned (c_phone f)) - 10) (cleaned (c_phone f))" by simp
qed

text \<open>
  The theorem at two forms on an empty store: the spaced ten-digit number is
  accepted and stored normalised, the five-digit one is refused and nothing is
  written.
\<close>

theorem contact_phone_validation_witness:
  "isValidPhoneNumber ''98765 43210''
   \<and> formatPhoneNumber ''98765 43210'' = ''+919876543210''
   \<and> map_option ct_phone
        (map_of (contacts (snd (contacts_handleSubmit (7, ''q1'') 7 8
           \<lparr>c_name = ''Asha'', c_phone = ''98765 43210'', c_email = [],
            c_associatedNodes = [''node1''], c_notificationPreference = ''sms''\<rparr>
           \<lparr>nodes = [], alerts = [], contacts = [], logs = [], notifications = []\<rparr>)))
           (generateId ''contact'' (7, ''q1''))) = Some ''+919876543210''
   \<and> \<not> isValidPhoneNumber ''12345''
   \<and> contacts_handleSubmit (7, ''q1'') 7 8
        \<lparr>c_name = ''Asha'', c_phone = ''12345'', c_email = [],
         c_associatedNodes = [''node1''], c_notificationPreference = ''sms''\<rparr>
        \<lparr>nodes = [], alerts = [], contacts = [], logs = [], notifications = []\<rparr>
       = (Inl ValidationError,
          \<lparr>nodes = [], alerts = [], contacts = [], logs = [], notifications = []\<rparr>)"
proof -
  have c1: "cleaned ''98765 43210'' = ''9876543210''"
    by (simp add: cleaned_def is_digit_def)
  have c2: "cleaned ''12345'' = ''12345''"
    by (simp add: cleaned_def is_digit_def)
  show ?thesis
    using
      contact_phone_validation[of
        "\<lparr>c_name = ''Asha'', c_phone = ''98765 43210'', c_email = [],
          c_associatedNodes = [''node1''], c_notificationPreference = ''sms''\<rparr>"
        "(7, ''q1'')" 7 8
        "\<lparr>nodes = [], alerts = [], contacts = [], logs = [], notifications = []\<rparr>"]
      contact_phone_validation[of
        "\<lparr>c_name = ''Asha'', c_phone = ''12345'', c_email = [],
          c_associatedNodes = [''node1''], c_notificationPreference = ''sms''\<rparr>"
        "(7, ''q1'')" 7 8
        "\<lparr>nodes = [], alerts = [], contacts = [], logs = [], notifications = []\<rparr>"]
    by (auto simp: c1 c2)
qed

section \<open>Status classifier\<close>

lemma is_digit_char_of: "0 \<le> d \<Longrightarrow> d < 10 \<Longrightarrow> is_digit (char_of (48 + d :: int))"
  by (simp add: is_digit_def)

lemma digit_val_char_of: "0 \<le> d \<Longrightarrow> d < 10 \<Longrightarrow> digit_val (char_of (48 + d :: int)) = d"
  by (simp add: digit_val_def Let_def)

lemma digits_of_digits: "0 \<le> n \<Longrightarrow> \<forall>c \<in> set (digits_of n). is_digit c"
proof (induction n rule: digits_of.induct)
  case (1 n)
  show ?case
  proof (cases "n < 10")
    case True
    with 1(2) show ?thesis
      by (subst digits_of.simps) (simp add: is_digit_char_of)
  next
    case False
    then have "0 \<le> n div 10" by simp
    with 1(1)[OF False] have ih: "\<forall>c \<in> set (digits_of (n div 10)). is_digit c"
      by simp
    have "is_digit (char_of (48 + n mod 10))"
      by (rule is_digit_char_of) simp_all
    with ih False show ?thesis
      by (subst digits_of.simps) simp
  qed
qed

lemma digits_of_nonempty: "digits_of n \<noteq> []"
  by (subst digits_of.simps) simp

lemma radix_val_snoc: "radix_val r (xs @ [c]) = r * radix_val r xs + digit_val c"
  by (simp add: radix_val_def)

lemma radix_val_digits_of: "0 \<le> n \<Longrightarrow> radix_val 10 (digits_of n) = n"
proof (induction n rule: digits_of.induct)
  case (1 n)
  show ?case
  proof (cases "n < 10")
    case True
    with 1(2) show ?thesis
      by (subst digits_of.simps) (simp add: radix_val_def digit_val_char_of)
  next
    case False
    then have "0 \<le> n div 10" by simp
    with 1(1)[OF False] have ih: "radix_val 10 (digits_of (n div 10)) = n div 10"
      by simp
    have "digit_val (char_of (48 + n mod 10)) = n mod 10"
      by (rule digit_val_char_of) simp_all
    with ih False show ?thesis
      by (subst digits_of.simps) (simp add: radix_val_snoc)
  qed
qed

lemma is_digit_facts:
  assumes "is_digit c"
  shows "\<not> is_ws c" "c \<noteq> CHR ''+''" "c \<noteq> CHR ''-''" "c \<noteq> CHR ''x''" "c \<noteq> CHR ''X''"
        "digit_val c < 10"
  using assms by (auto simp: is_digit_def is_ws_def digit_val_def Let_def)

lemma takeWhile_all: "\<forall>c \<in> set xs. P c \<Longrightarrow> takeWhile P xs = xs"
  by (induction xs) simp_all

text \<open>\<^verbatim>\<open>parseInt\<close> of a non-empty string of decimal digits is its decimal value.\<close>

lemma str_parseInt_digits:
  assumes ne: "ds \<noteq> []" and dig: "\<forall>c \<in> set ds. is_digit c"
  shows "str_parseInt ds = Fin (real_of_int (radix_val 10 ds))"
proof -
  obtain a rest where ds: "ds = a # rest"
    using ne by (cases ds) auto
  have a: "is_digit a"
    using dig ds by simp
  have t: "trim_start ds = ds"
    using is_digit_facts(1)[OF a] by (simp add: trim_start_def ds)
  have nohex: "take 2 ds \<noteq> ''0x'' \<and> take 2 ds \<noteq> ''0X''"
  proof (cases rest)
    case Nil
    then show ?thesis by (simp add: ds)
  next
    case (Cons b r)
    then have "is_digit b"
      using dig ds by simp
    from is_digit_facts(4,5)[OF this] show ?thesis
      by (simp add: ds Cons numeral_2_eq_2)
  qed
  have tw: "takeWhile (\<lambda>c. digit_val c < 10) ds = ds"
    by (rule takeWhile_all) (use dig is_digit_facts(6) in blast)
  have hd: "hd ds \<noteq> CHR ''+''" "hd ds \<noteq> CHR ''-''"
    using is_digit_facts(2,3)[OF a] by (simp_all add: ds)
  show ?thesis
    unfolding str_parseInt_def t Let_def using ne nohex hd by (simp add: tw)
qed

lemma str_parseInt_show_int: "0 \<le> t \<Longrightarrow> str_parseInt (show_int t) = Fin (real_of_int t)"
  using str_parseInt_digits[OF digits_of_nonempty, of t] digits_of_digits[of t]
    radix_val_digits_of[of t]
  by (simp add: show_int_def)

lemma show_int_nonempty: "show_int t \<noteq> []"
  by (simp add: show_int_def digits_of_nonempty)

text \<open>
  Claim C4, as stated: a timestamp 4 minutes before now is online and one 10
  minutes before now is warning. When the clock reads exactly 4 (or 10)
  minutes after the epoch, that timestamp is the number 0, which the guard
  \<^verbatim>\<open>if (!lastUpdate) return 'offline'\<close> takes for a missing one.
\<close>

theorem status_classifier_counterexample:
  "getNodeStatus_home (4 * 60 * 1000)
     (Number (Fin (real_of_int (4 * 60 * 1000 - 4 * 60 * 1000)))) \<noteq> ''online''
   \<and> getNodeStatus_home (10 * 60 * 1000)
     (Number (Fin (real_of_int (10 * 60 * 1000 - 10 * 60 * 1000)))) \<noteq> ''warning''
   \<and> getNodeStatus (4 * 60 * 1000)
     (Number (Fin (real_of_int (4 * 60 * 1000 - 4 * 60 * 1000)))) \<noteq> ''online''"
  by (simp add: getNodeStatus_def getNodeStatus_home_def)

text \<open>
  Claim C4, amended. With \<open>now\<close> the current time in milliseconds: a missing
  timestamp (\<^verbatim>\<open>null\<close> or \<^verbatim>\<open>undefined\<close>) is offline for both classifiers. For the
  home page's classifier a timestamp 4 minutes old is online, one 10 minutes
  old is warning and one 20 minutes old is offline; the shared classifier of
  \<^verbatim>\<open>lib/utils.js\<close> gives online, offline and offline there, and returns warning
  for no input at all. For a timestamp stored as a number of milliseconds this
  holds provided the timestamp is not the number 0, that is, the clock does
  not read exactly 4 or 10 minutes after the epoch; for one stored as a string
  of seconds it holds without condition.
\<close>

theorem status_classifier_thresholds:
  assumes "now \<noteq> 4 * 60 * 1000" and "now \<noteq> 10 * 60 * 1000" and "0 \<le> t"
  shows "getNodeStatus_home now Null = ''offline''
       \<and> getNodeStatus_home now Undefined = ''offline''
       \<and> getNodeStatus_home now (Number (Fin (real_of_int (now - 4 * 60 * 1000)))) = ''online''
       \<and> getNodeStatus_home now (Number (Fin (real_of_int (now - 10 * 60 * 1000)))) = ''warning''
       \<and> getNodeStatus_home now (Number (Fin (real_of_int (now - 20 * 60 * 1000)))) = ''offline''
       \<and> getNodeStatus_home (t * 1000 + 4 * 60 * 1000) (String (show_int t)) = ''online''
       \<and> getNodeStatus_home (t * 1000 + 10 * 60 * 1000) (String (show_int t)) = ''warning''
       \<and> getNodeStatus_home (t * 1000 + 20 * 60 * 1000) (String (show_int t)) = ''offline''
       \<and> getNodeStatus now Null = ''offline''
       \<and> getNodeStatus now Undefined = ''offline''
       \<and> getNodeStatus now (Number (Fin (real_of_int (now - 4 * 60 * 1000)))) = ''online''
       \<and> getNodeStatus now (Number (Fin (real_of_int (now - 10 * 60 * 1000)))) = ''offline''
       \<and> getNodeStatus now (Number (Fin (real_of_int (now - 20 * 60 * 1000)))) = ''offline''
       \<and> getNodeStatus (t * 1000 + 4 * 60 * 1000) (String (show_int t)) = ''online''
       \<and> getNodeStatus (t * 1000 + 10 * 60 * 1000) (String (show_int t)) = ''offline''
       \<and> getNodeStatus (t * 1000 + 20 * 60 * 1000) (String (show_int t)) = ''offline''
       \<and> (\<forall>n v. getNodeStatus n v \<noteq> ''warning'')"
  using assms
  by (auto simp: getNodeStatus_def getNodeStatus_home_def Let_def str_parseInt_show_int
        show_int_nonempty)

theorem status_classifier_thresholds_witness:
  "getNodeStatus_home 1700000000000 (Number (Fin 1699999760000)) = ''online''
   \<and> getNodeStatus_home 1700000000000 (Number (Fin 1699999400000)) = ''warning''
   \<and> getNodeStatus_home 1700000000000 (Number (Fin 1699998800000)) = ''offline''
   \<and> getNodeStatus_home 1700000000000 Null = ''offline''
   \<and> getNodeStatus 1700000000000 (Number (Fin 1699999400000)) = ''offline''
   \<and> getNodeStatus_home 1700000600000 (String (show_int 1700000000)) = ''warning''"
  using status_classifier_thresholds[of 1700000000000 1700000000]
  by simp

text \<open>
  Claim C10, as stated: the shared classifier gives the same status for the
  decimal string of \<open>t\<close> seconds and for the number \<open>t * 1000\<close>, for every
  \<open>t \<ge> 0\<close> and every current time. It fails at \<open>t = 0\<close> when the clock reads
  less than five minutes: the string \<^verbatim>\<open>"0"\<close> is truthy and classified by its
  age, the number 0 is falsy and taken as no timestamp.
\<close>

theorem status_string_vs_number_counterexample:
  "getNodeStatus 0 (String (show_int 0)) \<noteq> getNodeStatus 0 (Number (Fin (real_of_int (0 * 1000))))"
  by (simp add: getNodeStatus_def Let_def str_parseInt_show_int show_int_nonempty)

text \<open>
  Claim C10, amended: the two representations are classified alike for every
  \<open>t > 0\<close> at every current time, and for \<open>t = 0\<close> once the clock reads five
  minutes or more.
\<close>

theorem status_string_vs_number:
  assumes "0 \<le> t" and "0 < t \<or> 5 * 60 * 1000 \<le> now"
  shows "getNodeStatus now (String (show_int t)) =
         getNodeStatus now (Number (Fin (real_of_int (t * 1000))))"
  using assms
  by (auto simp: getNodeStatus_def Let_def str_parseInt_show_int show_int_nonempty)

theorem status_string_vs_number_witness:
  "getNodeStatus 1700000100000 (String (show_int 1700000000)) =
     getNodeStatus 1700000100000 (Number (Fin (real_of_int (1700000000 * 1000))))
   \<and> getNodeStatus 300000 (String (show_int 0)) =
     getNodeStatus 300000 (Number (Fin (real_of_int (0 * 1000))))"
  using status_string_vs_number[of 1700000000 1700000100000]
    status_string_vs_number[of 0 300000]
  by simp

section \<open>Map filter\<close>

lemma numeric_within_iff:
  "numeric_within lo hi v \<longleftrightarrow> (\<exists>x. v = Number (Fin x) \<and> lo \<le> x \<and> x \<le> hi)"
  by (auto simp: numeric_within_def split: jsval.splits number.splits)

text \<open>
  The dashboard page keeps exactly the nodes the invariant describes: latitude
  and longitude present as numbers within range, 0 included.
\<close>

lemma dashboard_accepts_iff: "dashboard_accepts node \<longleftrightarrow> spec_visible node"
proof
  assume "spec_visible node"
  then obtain x y where
    c: "member (member node ''metadata'') ''latitude'' = Number (Fin x)" "- 90 \<le> x" "x \<le> 90"
       "member (member node ''metadata'') ''longitude'' = Number (Fin y)" "- 180 \<le> y" "y \<le> 180"
    by (auto simp: spec_visible_def numeric_within_iff)
  from c(1) have m: "truthy (member node ''metadata'')"
    by (cases "member node ''metadata''") simp_all
  show "dashboard_accepts node"
    using c m by (simp add: dashboard_accepts_def Let_def)
next
  assume a: "dashboard_accepts node"
  let ?lat = "member (member node ''metadata'') ''latitude''"
  let ?lon = "member (member node ''metadata'') ''longitude''"
  from a have t: "typeof ?lat = ''number''" "typeof ?lon = ''number''"
    and r: "\<not> num_less (toNumber ?lat) (Fin (- 90))" "\<not> num_less (Fin 90) (toNumber ?lat)"
           "\<not> num_less (toNumber ?lon) (Fin (- 180))" "\<not> num_less (Fin 180) (toNumber ?lon)"
    and z: "truthy ?lat \<or> ?lat = Number (Fin 0)" "truthy ?lon \<or> ?lon = Number (Fin 0)"
    by (auto simp: dashboard_accepts_def Let_def split: if_splits)
  from t obtain n m where nm: "?lat = Number n" "?lon = Number m"
    by (cases ?lat; cases ?lon) simp_all
  from z nm have "n \<noteq> NaN" "m \<noteq> NaN"
    by auto
  with r nm obtain x y where "n = Fin x" "- 90 \<le> x" "x \<le> 90" "m = Fin y" "- 180 \<le> y" "y \<le> 180"
    by (cases n; cases m) auto
  with nm show "spec_visible node"
    by (simp add: spec_visible_def numeric_within_def)
qed

text \<open>
  What the component then draws: of these nodes, the ones with neither
  coordinate equal to 0.
\<close>

lemma marker_iff:
  "node \<in> set (markers data) \<longleftrightarrow>
     node \<in> snd ` set data \<and> spec_visible node \<and>
     member (member node ''metadata'') ''latitude'' \<noteq> Number (Fin 0) \<and>
     member (member node ''metadata'') ''longitude'' \<noteq> Number (Fin 0)"
proof -
  have "spec_visible node \<Longrightarrow>
      validNode node \<longleftrightarrow>
        member (member node ''metadata'') ''latitude'' \<noteq> Number (Fin 0) \<and>
        member (member node ''metadata'') ''longitude'' \<noteq> Number (Fin 0)"
    by (auto simp: spec_visible_def numeric_within_iff validNode_def isNaN_def)
  then show ?thesis
    by (auto simp: markers_def validNodes_def nodeArray_def dashboard_accepts_iff)
qed

lemma validBounds_validNodes:
  "validBounds ns =
     map (\<lambda>n. (toNumber (member (member n ''metadata'') ''latitude''),
                toNumber (member (member n ''metadata'') ''longitude'')))
       (validNodes ns)"
  by (simp add: validBounds_def validNodes_def validNode_def[abs_def])

text \<open>
  Claim C7 at a node on the equator: latitude 0, longitude 77.209. Both
  coordinates are numbers within range, so the claim has the node on the map,
  and the dashboard page keeps it, its test for a missing coordinate exempting
  0. The component's filter tests \<^verbatim>\<open>node?.metadata?.latitude\<close> for truthiness,
  which the number 0 fails: the node gets no marker.
\<close>

theorem map_drops_zero_coordinate:
  "spec_visible (Object [(''metadata'',
      Object [(''latitude'', Number (Fin 0)), (''longitude'', Number (Fin 77.209))])])
   \<and> dashboard_accepts (Object [(''metadata'',
      Object [(''latitude'', Number (Fin 0)), (''longitude'', Number (Fin 77.209))])])
   \<and> \<not> validNode (Object [(''metadata'',
      Object [(''latitude'', Number (Fin 0)), (''longitude'', Number (Fin 77.209))])])
   \<and> markers [(''node1'', Object [(''metadata'',
      Object [(''latitude'', Number (Fin 0)), (''longitude'', Number (Fin 77.209))])])] = []"
  by (simp add: spec_visible_def numeric_within_def dashboard_accepts_def Let_def validNode_def
        markers_def validNodes_def nodeArray_def getprop_def isNaN_def)

section \<open>Notification dispatch\<close>

lemma sms_POST_unconfigured:
  assumes "unconfigured env"
    and "getprop req ''recipients'' = Array (r # rs)"
    and "getprop req ''message'' = String (c # cs)"
  shows "sms_POST env req =
           ((200, [(''success'', Boolean False),
                   (''configured'', Boolean False),
                   (''message'', String ''SMS service not configured. Please set up Twilio credentials.''),
                   (''recipients'', Number (Fin (real (length (r # rs)))))]), [])"
  using assms unfolding unconfigured_def sms_POST_def Let_def json_obj_def
  by auto

lemma sms_POST_unconfigured_falsy:
  assumes "unconfigured env"
  shows "\<not> truthy (getprop (snd (fst (sms_POST env req))) ''configured'')
         \<and> snd (sms_POST env req) = []"
  using assms unfolding unconfigured_def sms_POST_def Let_def json_obj_def
  by (auto simp: getprop_def split: jsval.splits list.splits)

lemma sendSMS_unconfigured:
  assumes u: "unconfigured env"
  shows "\<exists>res s'.
           sendSMSNotification env d recipients message alertId severity s = ((Inr res, s'), [])
         \<and> getprop res ''success'' = Boolean False
         \<and> getprop res ''configured'' = Boolean False
         \<and> (\<exists>n. map_of (notifications s') (generateId ''notification'' (sd_notification d)) = Some n
                \<and> getprop n ''deliveryStatus'' = String ''not_configured'')
         \<and> (\<exists>l. map_of (logs s') (generateId ''log'' (sd_log d)) = Some l
                \<and> getprop l ''type'' = String ''sms_pending'')
         \<and> nodes s' = nodes s \<and> alerts s' = alerts s \<and> contacts s' = contacts s"
proof -
  obtain resp att where p: "sms_POST env [(''recipients'', Array (map String recipients)),
                           (''message'', String message),
                           (''alertId'', String alertId),
                           (''severity'', String severity)] = (resp, att)"
    by (cases "sms_POST env [(''recipients'', Array (map String recipients)),
                           (''message'', String message),
                           (''alertId'', String alertId),
                           (''severity'', String severity)]") auto
  from sms_POST_unconfigured_falsy[OF u, of "[(''recipients'', Array (map String recipients)),
                           (''message'', String message),
                           (''alertId'', String alertId),
                           (''severity'', String severity)]"] p
  have f: "\<not> truthy (getprop (snd resp) ''configured'')" and a: "att = []"
    by simp_all
  show ?thesis
    unfolding sendSMSNotification_def Let_def p
    using f a
    by (simp add: set_notification_def set_log_def fb_valid_strings map_of_fb_put
          stored_obj_def vacant_def stored_strings getprop_def)
qed

text \<open>
  Claim C9. Let the provider be unconfigured: Twilio is not enabled, or the
  account SID, the auth token or the sender number is missing. Then the
  endpoint answers a well-formed request (a non-empty recipient array and a
  non-empty message) with \<^verbatim>\<open>configured: false\<close> and attempts no delivery. And
  \<^verbatim>\<open>sendSMSNotification\<close>, for any recipients and message, attempts no delivery,
  writes a notification record whose \<^verbatim>\<open>deliveryStatus\<close> is \<^verbatim>\<open>not_configured\<close>
  and a log entry, leaves nodes, alerts and contacts alone, and returns
  \<^verbatim>\<open>success: false\<close>, \<^verbatim>\<open>configured: false\<close> as a value, no error leaving it.
\<close>

theorem sms_unconfigured_logs_only:
  assumes "unconfigured env"
    and "getprop req ''recipients'' = Array (r # rs)"
    and "getprop req ''message'' = String (c # cs)"
  shows "getprop (snd (fst (sms_POST env req))) ''configured'' = Boolean False
       \<and> snd (sms_POST env req) = []
       \<and> (\<exists>res s'.
             sendSMSNotification env d recipients message alertId severity s = ((Inr res, s'), [])
           \<and> getprop res ''success'' = Boolean False
           \<and> getprop res ''configured'' = Boolean False
           \<and> (\<exists>n. map_of (notifications s') (generateId ''notification'' (sd_notification d)) = Some n
                  \<and> getprop n ''deliveryStatus'' = String ''not_configured'')
           \<and> (\<exists>l. map_of (logs s') (generateId ''log'' (sd_log d)) = Some l
                  \<and> getprop l ''type'' = String ''sms_pending'')
           \<and> nodes s' = nodes s \<and> alerts s' = alerts s \<and> contacts s' = contacts s)"
proof (intro conjI)
  show "getprop (snd (fst (sms_POST env req))) ''configured'' = Boolean False"
    by (simp add: sms_POST_unconfigured[OF assms] getprop_def)
  show "snd (sms_POST env req) = []"
    by (simp add: sms_POST_unconfigured[OF assms])
  show "\<exists>res s'.
             sendSMSNotification env d recipients message alertId severity s = ((Inr res, s'), [])
           \<and> getprop res ''success'' = Boolean False
           \<and> getprop res ''configured'' = Boolean False
           \<and> (\<exists>n. map_of (notifications s') (generateId ''notification'' (sd_notification d)) = Some n
                  \<and> getprop n ''deliveryStatus'' = String ''not_configured'')
           \<and> (\<exists>l. map_of (logs s') (generateId ''log'' (sd_log d)) = Some l
                  \<and> getprop l ''type'' = String ''sms_pending'')
           \<and> nodes s' = nodes s \<and> alerts s' = alerts s \<and> contacts s' = contacts s"
    by (rule sendSMS_unconfigured[OF assms(1)])
qed

text \<open>
  The theorem with no environment variable set, for the request the alert
  dispatcher would send.
\<close>

theorem sms_unconfigured_logs_only_witness:
  "getprop (snd (fst (sms_POST
      \<lparr>NEXT_PUBLIC_TWILIO_ENABLED = None, NEXT_PUBLIC_TWILIO_ACCOUNT_SID = None,
       TWILIO_AUTH_TOKEN = None, NEXT_PUBLIC_TWILIO_PHONE_NUMBER = None,
       sdkInstalled = True, create = (\<lambda>b f t. Inr (''queued'', ''SM1''))\<rparr>
      [(''recipients'', Array [String ''+919876543210'']),
       (''message'', String ''[CRITICAL] Flood'')]))) ''configured'' = Boolean False
   \<and> snd (fst (sendSMSNotification
      \<lparr>NEXT_PUBLIC_TWILIO_ENABLED = None, NEXT_PUBLIC_TWILIO_ACCOUNT_SID = None,
       TWILIO_AUTH_TOKEN = None, NEXT_PUBLIC_TWILIO_PHONE_NUMBER = None,
       sdkInstalled = True, create = (\<lambda>b f t. Inr (''queued'', ''SM1''))\<rparr>
      \<lparr>sd_notification = (3, ''n''), sd_timestamp = 3, sd_log = (4, ''l'')\<rparr>
      [''+919876543210''] ''[CRITICAL] Flood'' ''alert_1_a'' ''critical''
      \<lparr>nodes = [], alerts = [], contacts = [], logs = [], notifications = []\<rparr>)) \<noteq>
     \<lparr>nodes = [], alerts = [], contacts = [], logs = [], notifications = []\<rparr>"
proof -
  have u: "unconfigured
      \<lparr>NEXT_PUBLIC_TWILIO_ENABLED = None, NEXT_PUBLIC_TWILIO_ACCOUNT_SID = None,
       TWILIO_AUTH_TOKEN = None, NEXT_PUBLIC_TWILIO_PHONE_NUMBER = None,
       sdkInstalled = True, create = (\<lambda>b f t. Inr (''queued'', ''SM1''))\<rparr>"
    by (simp add: unconfigured_def)
  have g1: "getprop [(''recipients'', Array [String ''+919876543210'']),
       (''message'', String ''[CRITICAL] Flood'')] ''recipients'' = Array (String ''+919876543210'' # [])"
    by (simp add: getprop_def)
  have g2: "getprop [(''recipients'', Array [String ''+919876543210'']),
       (''message'', String ''[CRITICAL] Flood'')] ''message'' = String (CHR ''['' # ''CRITICAL] Flood'')"
    by (simp add: getprop_def)
  from sms_unconfigured_logs_only[OF u g1 g2,
      of "\<lparr>sd_notification = (3, ''n''), sd_timestamp = 3, sd_log = (4, ''l'')\<rparr>"
         "[''+919876543210'']" "''[CRITICAL] Flood''" "''alert_1_a''" "''critical''"
         "\<lparr>nodes = [], alerts = [], contacts = [], logs = [], notifications = []\<rparr>"]
  show ?thesis
    by auto
qed

section \<open>Alert creation\<close>

lemma set_node_alert_linked:
  assumes v: "fb_valid (Object ob)" and ne: "stored_obj ob \<noteq> []"
  shows "\<exists>s'. set_node_alert n aid ob s = Inr s'
           \<and> alerts s' = alerts s \<and> contacts s' = contacts s
           \<and> logs s' = logs s \<and> notifications s' = notifications s
           \<and> backref s' n aid = Some (stored_obj ob)
           \<and> (\<forall>m. backref s m aid = Some (stored_obj ob) \<longrightarrow> backref s' m aid = Some (stored_obj ob))"
  using v ne
  by (auto simp: set_node_alert_def Let_def backref_def update_conv' map_of_fb_put
           simp del: fb_valid.simps split: option.splits)

lemma link_alert_linked:
  assumes v: "fb_valid (Object ob)" and ne: "stored_obj ob \<noteq> []"
  shows "\<exists>s'. link_alert ns aid ob s = (Inr (), s')
           \<and> alerts s' = alerts s \<and> contacts s' = contacts s
           \<and> logs s' = logs s \<and> notifications s' = notifications s
           \<and> (\<forall>n \<in> set ns. backref s' n aid = Some (stored_obj ob))
           \<and> (\<forall>m. backref s m aid = Some (stored_obj ob) \<longrightarrow> backref s' m aid = Some (stored_obj ob))"
proof (induction ns arbitrary: s)
  case Nil
  show ?case by simp
next
  case (Cons n ns)
  from set_node_alert_linked[OF v ne, of n aid s] obtain s1 where
    s1: "set_node_alert n aid ob s = Inr s1" "alerts s1 = alerts s" "contacts s1 = contacts s"
        "logs s1 = logs s" "notifications s1 = notifications s"
        "backref s1 n aid = Some (stored_obj ob)"
        "\<forall>m. backref s m aid = Some (stored_obj ob) \<longrightarrow> backref s1 m aid = Some (stored_obj ob)"
    by blast
  from Cons.IH[of s1] obtain s2 where
    s2: "link_alert ns aid ob s1 = (Inr (), s2)" "alerts s2 = alerts s1" "contacts s2 = contacts s1"
        "logs s2 = logs s1" "notifications s2 = notifications s1"
        "\<forall>n \<in> set ns. backref s2 n aid = Some (stored_obj ob)"
        "\<forall>m. backref s1 m aid = Some (stored_obj ob) \<longrightarrow> backref s2 m aid = Some (stored_obj ob)"
    by blast
  show ?case
    using s1 s2 by (intro exI[of _ s2]) simp
qed

lemma sms_catch_ok:
  "\<exists>res s'. sms_catch d rs aid s = (Inr res, s') \<and> nodes s' = nodes s \<and> alerts s' = alerts s
       \<and> contacts s' = contacts s"
  by (simp add: sms_catch_def Let_def set_log_def)

lemma two_writes_frame:
  "\<exists>res s'.
     fst (case set_notification k nd s of
            Inl e \<Rightarrow> (sms_catch d rs aid s, att)
          | Inr s1 \<Rightarrow>
              (case set_log k2 lg s1 of
                 Inl e \<Rightarrow> (sms_catch d rs aid s1, att)
               | Inr s2 \<Rightarrow> ((Inr r, s2), att))) = (Inr res, s')
     \<and> nodes s' = nodes s \<and> alerts s' = alerts s \<and> contacts s' = contacts s"
proof (cases "fb_valid (Object nd)")
  case False
  then show ?thesis
    using sms_catch_ok[of d rs aid s] by (auto simp: set_notification_def)
next
  case True
  let ?s1 = "s\<lparr>notifications := fb_put k nd (notifications s)\<rparr>"
  have n: "set_notification k nd s = Inr ?s1"
    using True by (simp add: set_notification_def)
  show ?thesis
  proof (cases "fb_valid (Object lg)")
    case False
    then show ?thesis
      using sms_catch_ok[of d rs aid ?s1] by (auto simp: n set_log_def)
  next
    case True
    then show ?thesis
      by (simp add: n set_log_def)
  qed
qed

lemma sendSMS_frame:
  "\<exists>res s'. fst (sendSMSNotification env d rs msg aid sev s) = (Inr res, s')
       \<and> nodes s' = nodes s \<and> alerts s' = alerts s \<and> contacts s' = contacts s"
proof -
  obtain resp att where p: "sms_POST env [(''recipients'', Array (map String rs)),
                           (''message'', String msg),
                           (''alertId'', String aid),
                           (''severity'', String sev)] = (resp, att)"
    by (cases "sms_POST env [(''recipients'', Array (map String rs)),
                           (''message'', String msg),
                           (''alertId'', String aid),
                           (''severity'', String sev)]") auto
  show ?thesis
  proof (cases "truthy (getprop (snd resp) ''configured'')")
    case False
    then show ?thesis
      unfolding sendSMSNotification_def Let_def p prod.case
      by (simp only: if_True not_False_eq_True) (rule two_writes_frame)
  next
    case True
    then show ?thesis
      unfolding sendSMSNotification_def Let_def p prod.case
      by (simp only: if_False not_True_eq_False) (rule two_writes_frame)
  qed
qed

lemma inApp_frame:
  "nodes (snd (sendInAppNotification dr t aid msg sev ns s)) = nodes s
   \<and> alerts (snd (sendInAppNotification dr t aid msg sev ns s)) = alerts s
   \<and> contacts (snd (sendInAppNotification dr t aid msg sev ns s)) = contacts s"
  by (simp add: sendInAppNotification_def Let_def set_notification_def split: sum.splits)


lemma handleCreateAlert_valid:
  assumes m: "length (af_message f) \<le> 500" and n: "af_affectedNodes f \<noteq> []"
  shows "\<exists>s' a. handleCreateAlert env d f rc s = (Inr (), s')
          \<and> map_of (alerts s') (generateId ''alert'' (ad_alert d)) = Some a
          \<and> getprop a ''affectedNodes'' = Array (map String (af_affectedNodes f))
          \<and> getprop a ''severity'' = String (af_severity f)
          \<and> getprop a ''id'' = String (generateId ''alert'' (ad_alert d))
          \<and> (\<forall>nodeId \<in> set (af_affectedNodes f).
                backref s' nodeId (generateId ''alert'' (ad_alert d)) =
                  Some [(''alertId'', String (generateId ''alert'' (ad_alert d))),
                        (''severity'', String (af_severity f)),
                        (''timestamp'', Number (Fin (real_of_int (ad_now d)))),
                        (''acknowledged'', Boolean False)])
          \<and> (\<forall>k. k \<noteq> generateId ''alert'' (ad_alert d) \<longrightarrow>
                map_of (alerts s') k = map_of (alerts s) k)"
proof -
  let ?aid = "generateId ''alert'' (ad_alert d)"
  let ?now = "Number (Fin (real_of_int (ad_now d)))"
  let ?phones = "map ct_phone rc"
  let ?data = "[(''id'', String ?aid),
               (''type'', String ''manual''),
               (''severity'', String (af_severity f)),
               (''message'', String (af_message f)),
               (''affectedNodes'', Array (map String (af_affectedNodes f))),
               (''timestamp'', ?now),
               (''acknowledged'', Boolean False),
               (''acknowledgedBy'', Null),
               (''acknowledgedAt'', Null),
               (''sentSMS'', Boolean (af_sendSMS f)),
               (''smsSentAt'', (if af_sendSMS f then ?now else Null)),
               (''recipients'', Array (map String ?phones)),
               (''createdBy'', String ''analytical''),
               (''source'', String ''analytical_panel'')]"
  let ?ref = "[(''alertId'', String ?aid),
               (''severity'', String (af_severity f)),
               (''timestamp'', ?now),
               (''acknowledged'', Boolean False)]"
  let ?s1 = "s\<lparr>alerts := fb_put ?aid ?data (alerts s)\<rparr>"
  have c1: "\<not> 500 < length (af_message f)" using m by simp
  have c2: "\<not> length (af_affectedNodes f) = 0" using n by simp
  have sa: "set_alert ?aid ?data s = Inr ?s1"
    by (simp add: set_alert_def fb_valid_strings fb_valid_strings_comp)
  have st: "stored_obj ?data \<noteq> []"
    by (simp add: stored_obj_def vacant_def)
  have look: "map_of (alerts ?s1) ?aid = Some (stored_obj ?data)"
    using st by (simp add: map_of_fb_put)
  have c3: "\<not> map_of (alerts ?s1) ?aid = None"
    using look by simp
  have rv: "fb_valid (Object ?ref)" by simp
  have rs: "stored_obj ?ref = ?ref" by (simp add: stored_obj_def vacant_def)
  from link_alert_linked[OF rv, of "af_affectedNodes f" ?aid ?s1] rs
  obtain s2 where
    l: "link_alert (af_affectedNodes f) ?aid ?ref ?s1 = (Inr (), s2)"
       "alerts s2 = alerts ?s1"
       "\<forall>n \<in> set (af_affectedNodes f). backref s2 n ?aid = Some ?ref"
    by auto
  let ?logId = "generateId ''log'' (ad_log d)"
  let ?log = "[(''id'', String ?logId),
               (''type'', String ''alert_triggered''),
               (''message'',
                  String (''Manual alert created affecting ''
                    @ show_int (int (length (af_affectedNodes f)))
                    @ '' node(s): '' @ [CHR 0x22] @ take 50 (af_message f)
                    @ (if length (af_message f) > 50 then ''...'' else [])
                    @ [CHR 0x22])),
               (''timestamp'', ?now),
               (''metadata'',
                  Object [(''alertId'', String ?aid),
                          (''affectedNodes'', Array (map String (af_affectedNodes f))),
                          (''severity'', String (af_severity f)),
                          (''recipients'', Number (Fin (real (length ?phones))))])]"
  let ?s3 = "s2\<lparr>logs := fb_put ?logId ?log (logs s2)\<rparr>"
  have lg: "set_log ?logId ?log s2 = Inr ?s3"
    by (simp add: set_log_def fb_valid_strings)
  let ?sms = "(if af_sendSMS f \<and> length ?phones > 0
              then fst (sendSMSNotification env (ad_sms d) ?phones
                          (''['' @ toUpperCase (af_severity f) @ ''] '' @ af_message f)
                          ?aid (af_severity f) ?s3)
              else (Inr [], ?s3))"
  obtain res s4 where
    sm: "?sms = (Inr res, s4)" "nodes s4 = nodes ?s3" "alerts s4 = alerts ?s3"
    using sendSMS_frame[of env "ad_sms d" ?phones
            "''['' @ toUpperCase (af_severity f) @ ''] '' @ af_message f" ?aid "af_severity f" ?s3]
    by (cases "af_sendSMS f \<and> length ?phones > 0") auto
  let ?s5 = "snd (sendInAppNotification (ad_inApp d) (ad_inAppTime d) ?aid
                (af_message f) (af_severity f) (af_affectedNodes f) s4)"
  have r: "handleCreateAlert env d f rc s = (Inr (), ?s5)"
    unfolding handleCreateAlert_def Let_def
    by (simp only: c1 c2 if_False sa sum.case c3 l(1) prod.case lg sm(1))
  have n5: "nodes ?s5 = nodes s2" and a5: "alerts ?s5 = alerts ?s1"
    using inApp_frame[of "ad_inApp d" "ad_inAppTime d" ?aid "af_message f" "af_severity f"
            "af_affectedNodes f" s4] sm(2,3) l(2)
    by simp_all
  have b5: "\<forall>n \<in> set (af_affectedNodes f). backref ?s5 n ?aid = Some ?ref"
    using l(3) n5 by (simp add: backref_def)
  have g1: "getprop (stored_obj ?data) ''affectedNodes'' = Array (map String (af_affectedNodes f))"
    using n by (simp add: stored_obj_def vacant_def getprop_def stored_strings)
  have g2: "getprop (stored_obj ?data) ''severity'' = String (af_severity f)"
    by (simp add: stored_obj_def vacant_def getprop_def)
  have g3: "getprop (stored_obj ?data) ''id'' = String ?aid"
    by (simp add: stored_obj_def vacant_def getprop_def)
  have o: "\<forall>k. k \<noteq> ?aid \<longrightarrow> map_of (alerts ?s5) k = map_of (alerts s) k"
    unfolding a5 by (simp add: map_of_fb_put)
  show ?thesis
    using r look a5 b5 g1 g2 g3 o
    by (intro exI[of _ ?s5] exI[of _ "stored_obj ?data"]) simp
qed

text \<open>
  Claim C1. \<^verbatim>\<open>handleCreateAlert\<close> refuses a message of more than 500 characters
  and an empty list of affected nodes with ValidationError, the store left as
  it was. For a message within the limit and a non-empty list it succeeds; the
  alert stored under the generated identifier has that list as its
  \<^verbatim>\<open>affectedNodes\<close>, and every listed node has a back-reference under the same
  identifier whose \<^verbatim>\<open>alertId\<close> and \<^verbatim>\<open>severity\<close> are those of the alert. This holds
  for every recipient list, SMS environment and prior store.
\<close>

theorem create_alert_validation_and_backrefs:
  "(500 < length (af_message f) \<or> af_affectedNodes f = [] \<longrightarrow>
      handleCreateAlert env d f rc s = (Inl ValidationError, s))
   \<and> (length (af_message f) \<le> 500 \<and> af_affectedNodes f \<noteq> [] \<longrightarrow>
      (\<exists>s' a. handleCreateAlert env d f rc s = (Inr (), s')
          \<and> map_of (alerts s') (generateId ''alert'' (ad_alert d)) = Some a
          \<and> getprop a ''id'' = String (generateId ''alert'' (ad_alert d))
          \<and> getprop a ''affectedNodes'' = Array (map String (af_affectedNodes f))
          \<and> (\<forall>nodeId \<in> set (af_affectedNodes f).
                \<exists>b. backref s' nodeId (generateId ''alert'' (ad_alert d)) = Some b
                   \<and> getprop b ''alertId'' = String (generateId ''alert'' (ad_alert d))
                   \<and> getprop b ''severity'' = getprop a ''severity'')))"
proof (intro conjI impI)
  assume "500 < length (af_message f) \<or> af_affectedNodes f = []"
  then show "handleCreateAlert env d f rc s = (Inl ValidationError, s)"
    by (auto simp: handleCreateAlert_def)
next
  assume v: "length (af_message f) \<le> 500 \<and> af_affectedNodes f \<noteq> []"
  from handleCreateAlert_valid[of f env d rc s] v obtain s' a where
    h: "handleCreateAlert env d f rc s = (Inr (), s')"
       "map_of (alerts s') (generateId ''alert'' (ad_alert d)) = Some a"
       "getprop a ''affectedNodes'' = Array (map String (af_affectedNodes f))"
       "getprop a ''severity'' = String (af_severity f)"
       "getprop a ''id'' = String (generateId ''alert'' (ad_alert d))"
       "\<forall>nodeId \<in> set (af_affectedNodes f).
                backref s' nodeId (generateId ''alert'' (ad_alert d)) =
                  Some [(''alertId'', String (generateId ''alert'' (ad_alert d))),
                        (''severity'', String (af_severity f)),
                        (''timestamp'', Number (Fin (real_of_int (ad_now d)))),
                        (''acknowledged'', Boolean False)]"
    by blast
  show "\<exists>s' a. handleCreateAlert env d f rc s = (Inr (), s')
          \<and> map_of (alerts s') (generateId ''alert'' (ad_alert d)) = Some a
          \<and> getprop a ''id'' = String (generateId ''alert'' (ad_alert d))
          \<and> getprop a ''affectedNodes'' = Array (map String (af_affectedNodes f))
          \<and> (\<forall>nodeId \<in> set (af_affectedNodes f).
                \<exists>b. backref s' nodeId (generateId ''alert'' (ad_alert d)) = Some b
                   \<and> getprop b ''alertId'' = String (generateId ''alert'' (ad_alert d))
                   \<and> getprop b ''severity'' = getprop a ''severity'')"
    using h by (intro exI[of _ s'] exI[of _ a]) (simp add: getprop_def)
qed

text \<open>
  The theorem for a critical alert on two nodes, one of which has no record
  yet, and for the same form with no node selected.
\<close>

theorem create_alert_validation_and_backrefs_witness:
  "fst (handleCreateAlert
      \<lparr>NEXT_PUBLIC_TWILIO_ENABLED = None, NEXT_PUBLIC_TWILIO_ACCOUNT_SID = None,
       TWILIO_AUTH_TOKEN = None, NEXT_PUBLIC_TWILIO_PHONE_NUMBER = None,
       sdkInstalled = True, create = (\<lambda>b f t. Inr (''queued'', ''SM1''))\<rparr>
      \<lparr>ad_alert = (1, ''a''), ad_now = 2, ad_log = (2, ''b''),
       ad_sms = \<lparr>sd_notification = (3, ''n''), sd_timestamp = 3, sd_log = (4, ''l'')\<rparr>,
       ad_inApp = (5, ''i''), ad_inAppTime = 5\<rparr>
      \<lparr>af_message = ''Flood'', af_severity = ''critical'',
       af_affectedNodes = [''node1'', ''node2''], af_sendSMS = False\<rparr>
      []
      \<lparr>nodes = [], alerts = [], contacts = [], logs = [], notifications = []\<rparr>) = Inr ()
   \<and> handleCreateAlert
      \<lparr>NEXT_PUBLIC_TWILIO_ENABLED = None, NEXT_PUBLIC_TWILIO_ACCOUNT_SID = None,
       TWILIO_AUTH_TOKEN = None, NEXT_PUBLIC_TWILIO_PHONE_NUMBER = None,
       sdkInstalled = True, create = (\<lambda>b f t. Inr (''queued'', ''SM1''))\<rparr>
      \<lparr>ad_alert = (1, ''a''), ad_now = 2, ad_log = (2, ''b''),
       ad_sms = \<lparr>sd_notification = (3, ''n''), sd_timestamp = 3, sd_log = (4, ''l'')\<rparr>,
       ad_inApp = (5, ''i''), ad_inAppTime = 5\<rparr>
      \<lparr>af_message = ''Flood'', af_severity = ''critical'',
       af_affectedNodes = [], af_sendSMS = False\<rparr>
      []
      \<lparr>nodes = [], alerts = [], contacts = [], logs = [], notifications = []\<rparr>
     = (Inl ValidationError,
        \<lparr>nodes = [], alerts = [], contacts = [], logs = [], notifications = []\<rparr>)"
  using
    create_alert_validation_and_backrefs[of
      "\<lparr>af_message = ''Flood'', af_severity = ''critical'',
        af_affectedNodes = [''node1'', ''node2''], af_sendSMS = False\<rparr>"
      "\<lparr>NEXT_PUBLIC_TWILIO_ENABLED = None, NEXT_PUBLIC_TWILIO_ACCOUNT_SID = None,
        TWILIO_AUTH_TOKEN = None, NEXT_PUBLIC_TWILIO_PHONE_NUMBER = None,
        sdkInstalled = True, create = (\<lambda>b f t. Inr (''queued'', ''SM1''))\<rparr>"
      "\<lparr>ad_alert = (1, ''a''), ad_now = 2, ad_log = (2, ''b''),
        ad_sms = \<lparr>sd_notification = (3, ''n''), sd_timestamp = 3, sd_log = (4, ''l'')\<rparr>,
        ad_inApp = (5, ''i''), ad_inAppTime = 5\<rparr>"
      "[]"
      "\<lparr>nodes = [], alerts = [], contacts = [], logs = [], notifications = []\<rparr>"]
    create_alert_validation_and_backrefs[of
      "\<lparr>af_message = ''Flood'', af_severity = ''critical'',
        af_affectedNodes = [], af_sendSMS = False\<rparr>"
      "\<lparr>NEXT_PUBLIC_TWILIO_ENABLED = None, NEXT_PUBLIC_TWILIO_ACCOUNT_SID = None,
        TWILIO_AUTH_TOKEN = None, NEXT_PUBLIC_TWILIO_PHONE_NUMBER = None,
        sdkInstalled = True, create = (\<lambda>b f t. Inr (''queued'', ''SM1''))\<rparr>"
      "\<lparr>ad_alert = (1, ''a''), ad_now = 2, ad_log = (2, ''b''),
        ad_sms = \<lparr>sd_notification = (3, ''n''), sd_timestamp = 3, sd_log = (4, ''l'')\<rparr>,
        ad_inApp = (5, ''i''), ad_inAppTime = 5\<rparr>"
      "[]"
      "\<lparr>nodes = [], alerts = [], contacts = [], logs = [], notifications = []\<rparr>"]
  by auto


section \<open>Alert recipients\<close>

text \<open>
  Claim C5. For every list \<open>A\<close> of affected nodes and every stored set of
  contacts, the recipients computed are exactly the stored contacts whose
  associated nodes intersect \<open>A\<close>, and the phone numbers are those of these
  contacts. With the alert on \<^verbatim>\<open>node1\<close> and \<^verbatim>\<open>node2\<close> and a single contact
  associated to \<^verbatim>\<open>node1\<close>, that is this contact's phone number and nothing else.
\<close>

theorem recipients_are_intersecting_contacts:
  "computeRecipients A cs =
     filter (\<lambda>c. set (ct_associatedNodes c) \<inter> set A \<noteq> {}) (map snd cs)
   \<and> set (map ct_phone (computeRecipients A cs)) =
       ct_phone ` {c \<in> snd ` set cs. set (ct_associatedNodes c) \<inter> set A \<noteq> {}}
   \<and> map ct_phone (computeRecipients [''node1'', ''node2'']
         [(k, c\<lparr>ct_associatedNodes := [''node1'']\<rparr>)]) = [ct_phone c]"
proof (intro conjI)
  have e: "\<And>c. list_ex (\<lambda>nodeId. nodeId \<in> set A) (ct_associatedNodes c)
              \<longleftrightarrow> set (ct_associatedNodes c) \<inter> set A \<noteq> {}"
    by (auto simp: list_ex_iff)
  show g: "computeRecipients A cs =
     filter (\<lambda>c. set (ct_associatedNodes c) \<inter> set A \<noteq> {}) (map snd cs)"
    by (cases "A = []") (simp_all add: computeRecipients_def e)
  show "set (map ct_phone (computeRecipients A cs)) =
       ct_phone ` {c \<in> snd ` set cs. set (ct_associatedNodes c) \<inter> set A \<noteq> {}}"
    unfolding g by auto
  show "map ct_phone (computeRecipients [''node1'', ''node2'']
         [(k, c\<lparr>ct_associatedNodes := [''node1'']\<rparr>)]) = [ct_phone c]"
    by (simp add: computeRecipients_def)
qed

theorem recipients_are_intersecting_contacts_witness:
  "map ct_phone (computeRecipients [''node1'', ''node2'']
     [(''contact_1_a'',
       \<lparr>ct_id = ''contact_1_a'', ct_name = ''Asha'', ct_phone = ''+919876543210'',
        ct_email = [], ct_associatedNodes = [''node1''], ct_notificationPreference = ''sms'',
        ct_createdAt = 1, ct_lastUpdated = 1\<rparr>)]) = [''+919876543210'']"
  using recipients_are_intersecting_contacts[of "[''node1'', ''node2'']"
     "[(''contact_1_a'',
       \<lparr>ct_id = ''contact_1_a'', ct_name = ''Asha'', ct_phone = ''+919876543210'',
        ct_email = [], ct_associatedNodes = [''node1''], ct_notificationPreference = ''sms'',
        ct_createdAt = 1, ct_lastUpdated = 1\<rparr>)]"]
  by simp

section \<open>Node registration\<close>

text \<open>
  Claim C3. When the store has a node under the identifier of the form,
  registration fails with DuplicateIdError and the store is the one it was:
  nothing is written, whatever else the form holds.
\<close>

theorem register_duplicate_id_rejected:
  assumes "map_of (nodes s) (f_nodeId f) = Some n"
  shows "register_handleSubmit env f s = (Inl DuplicateIdError, s)"
proof -
  have "nodes s \<noteq> []" using assms by auto
  with assms have "node_exists s (f_nodeId f)" by (simp add: node_exists_def)
  then show ?thesis by (simp add: register_handleSubmit_def validateForm_def)
qed

theorem register_duplicate_id_rejected_witness:
  "register_handleSubmit
     \<lparr>installedDate = ''2024-01-01T00:00:00.000Z'', createdAt = 5, lastUpdateNow = 5\<rparr>
     \<lparr>f_nodeId = ''node1'', f_type = ''node'', f_name = ''Ridge'', f_latitude = ''28.6139'',
      f_longitude = ''77.209'', f_altitude = [], f_installedBy = [], f_description = [],
      f_nearbyNodes = []\<rparr>
     \<lparr>nodes = [(''node1'', \<lparr>n_metadata = Some [(''name'', String ''Old'')], n_realtime = None,
                              n_history = [], n_alerts = []\<rparr>)],
      alerts = [], contacts = [], logs = [], notifications = []\<rparr>
   = (Inl DuplicateIdError,
      \<lparr>nodes = [(''node1'', \<lparr>n_metadata = Some [(''name'', String ''Old'')], n_realtime = None,
                              n_history = [], n_alerts = []\<rparr>)],
       alerts = [], contacts = [], logs = [], notifications = []\<rparr>)"
  using register_duplicate_id_rejected[of
     "\<lparr>nodes = [(''node1'', \<lparr>n_metadata = Some [(''name'', String ''Old'')], n_realtime = None,
                              n_history = [], n_alerts = []\<rparr>)],
       alerts = [], contacts = [], logs = [], notifications = []\<rparr>"
     "\<lparr>f_nodeId = ''node1'', f_type = ''node'', f_name = ''Ridge'', f_latitude = ''28.6139'',
      f_longitude = ''77.209'', f_altitude = [], f_installedBy = [], f_description = [],
      f_nearbyNodes = []\<rparr>"
     "\<lparr>n_metadata = Some [(''name'', String ''Old'')], n_realtime = None,
       n_history = [], n_alerts = []\<rparr>"
     "\<lparr>installedDate = ''2024-01-01T00:00:00.000Z'', createdAt = 5, lastUpdateNow = 5\<rparr>"]
  by simp

text \<open>
  The two halves of claim C2 where the code keeps them. A fresh identifier
  with a latitude or longitude that does not parse to a number in range is
  refused with ValidationError and nothing is written. A form with a fresh
  identifier, a name, coordinates that parse to numbers in range and other than
  0, and an altitude that is empty or numeric, is registered, and the stored
  metadata holds the two parsed numbers. A coordinate is here the exact value
  of its decimal string; the code rounds that value to binary64, so a string
  within one rounding step of a bound or of 0 can fall on the other side there.
\<close>

lemma isValidLatitude_Fin: "isValidLatitude (Number (Fin x)) \<longleftrightarrow> - 90 \<le> x \<and> x \<le> 90"
  by (auto simp: isValidLatitude_def isNaN_def num_ge_def num_le_def Let_def)

lemma isValidLongitude_Fin: "isValidLongitude (Number (Fin x)) \<longleftrightarrow> - 180 \<le> x \<and> x \<le> 180"
  by (auto simp: isValidLongitude_def isNaN_def num_ge_def num_le_def Let_def)

lemma register_roundtrip_nonzero:
  assumes fresh: "\<not> node_exists s (f_nodeId f)"
    and req: "f_nodeId f \<noteq> []" "f_name f \<noteq> []" "f_latitude f \<noteq> []" "f_longitude f \<noteq> []"
    and lat: "str_parseFloat (f_latitude f) = Fin lat" "- 90 \<le> lat" "lat \<le> 90" "lat \<noteq> 0"
    and lon: "str_parseFloat (f_longitude f) = Fin lon" "- 180 \<le> lon" "lon \<le> 180" "lon \<noteq> 0"
    and alt: "f_altitude f = [] \<or> (\<exists>a. str_parseFloat (f_altitude f) = Fin a)"
  shows "\<exists>s' nd m. register_handleSubmit env f s = (Inr (), s')
           \<and> map_of (nodes s') (f_nodeId f) = Some nd
           \<and> n_metadata nd = Some m
           \<and> getprop m ''latitude'' = Number (Fin lat)
           \<and> getprop m ''longitude'' = Number (Fin lon)"
proof -
  have v: "validateForm f s = None"
    using fresh req lat lon
    by (simp add: validateForm_def Let_def isNaN_def isValidLatitude_Fin isValidLongitude_Fin)
  show ?thesis
    using alt lat lon
    unfolding register_handleSubmit_def v Let_def
    by (auto simp: isNaN_def fb_valid_strings update_conv' stored_obj_def vacant_def getprop_def
          nodeMetadata_def nodeRealtime_def parsedAltitude_def verifySaved_def Let_def)
qed

lemma register_out_of_range:
  assumes "\<not> node_exists s (f_nodeId f)"
    and "\<not> (isValidLatitude (Number (str_parseFloat (f_latitude f)))
            \<and> isValidLongitude (Number (str_parseFloat (f_longitude f))))"
  shows "register_handleSubmit env f s = (Inl ValidationError, s)"
  using assms by (auto simp: register_handleSubmit_def validateForm_def Let_def)

text \<open>
  Claim C2 at latitude 0, which \<^verbatim>\<open>isValidLatitude\<close> accepts. The node is
  written with latitude 0; the read-back then tests \<^verbatim>\<open>!savedData.metadata.latitude\<close>,
  which is true of the number 0, and the handler throws "coordinates are
  missing": registration reports a failure and leaves the node in the store.
\<close>

theorem register_zero_latitude_fails:
  "isValidLatitude (Number (str_parseFloat ''0''))
   \<and> fst (register_handleSubmit
        \<lparr>installedDate = ''2024-01-01T00:00:00.000Z'', createdAt = 1700000000000,
         lastUpdateNow = 1700000000000\<rparr>
        \<lparr>f_nodeId = ''node1'', f_type = ''node'', f_name = ''Equator'', f_latitude = ''0'',
         f_longitude = ''77.209'', f_altitude = [], f_installedBy = [], f_description = [],
         f_nearbyNodes = []\<rparr>
        \<lparr>nodes = [], alerts = [], contacts = [], logs = [], notifications = []\<rparr>)
      = Inl VerificationError
   \<and> map_option (\<lambda>nd. map_option (\<lambda>m. getprop m ''latitude'') (n_metadata nd))
        (map_of (nodes (snd (register_handleSubmit
        \<lparr>installedDate = ''2024-01-01T00:00:00.000Z'', createdAt = 1700000000000,
         lastUpdateNow = 1700000000000\<rparr>
        \<lparr>f_nodeId = ''node1'', f_type = ''node'', f_name = ''Equator'', f_latitude = ''0'',
         f_longitude = ''77.209'', f_altitude = [], f_installedBy = [], f_description = [],
         f_nearbyNodes = []\<rparr>
        \<lparr>nodes = [], alerts = [], contacts = [], logs = [], notifications = []\<rparr>))) ''node1'')
      = Some (Some (Number (Fin 0)))"
  by code_simp

section \<open>Acknowledgement\<close>

lemma register_alerts: "alerts (snd (register_handleSubmit env f s)) = alerts s"
  unfolding register_handleSubmit_def Let_def
  by (simp split: option.splits)

lemma handleDeleteNode_alerts: "alerts (snd (handleDeleteNode dr now n s)) = alerts s"
  by (simp add: handleDeleteNode_def Let_def set_log_def)

lemma contacts_handleSubmit_alerts: "alerts (snd (contacts_handleSubmit dr t1 t2 f s)) = alerts s"
  by (simp add: contacts_handleSubmit_def Let_def)

lemma manual_alert_other:
  "generateId ''alert'' dr \<noteq> k \<Longrightarrow>
   map_of (alerts (snd (handleSendManualAlert dr now f cs s))) k = map_of (alerts s) k"
  by (simp add: handleSendManualAlert_def Let_def set_alert_def map_of_fb_put)

lemma acknowledge_sets:
  "\<exists>a. map_of (alerts (handleAcknowledge now k s)) k = Some a
      \<and> getprop a ''acknowledged'' = Boolean True
      \<and> getprop a ''acknowledgedBy'' = String ''analytical''
      \<and> getprop a ''acknowledgedAt'' = Number (Fin (real_of_int now))"
  by (simp add: handleAcknowledge_def update_conv' fb_merge_def vacant_def getprop_def)

lemma acknowledge_other:
  "k' \<noteq> k \<Longrightarrow> map_of (alerts (handleAcknowledge now k' s)) k = map_of (alerts s) k"
  by (simp add: handleAcknowledge_def update_conv')

lemma import_alerts:
  "imp_alerts imp = None \<Longrightarrow> alerts (snd (confirmImportData dr now imp s)) = alerts s"
  by (simp add: confirmImportData_def Let_def set_log_def split: option.splits)

lemma reset_alerts:
  "txt \<noteq> ''DELETE'' \<Longrightarrow> alerts (snd (handleResetSystem txt s)) = alerts s"
  by (simp add: handleResetSystem_def)


lemma create_alert_other:
  assumes "generateId ''alert'' (ad_alert d) \<noteq> k"
  shows "map_of (alerts (snd (handleCreateAlert env d f rc s))) k = map_of (alerts s) k"
proof (cases "length (af_message f) \<le> 500 \<and> af_affectedNodes f \<noteq> []")
  case True
  with handleCreateAlert_valid[of f env d rc s] assms show ?thesis
    by auto
next
  case False
  then show ?thesis
    by (auto simp: handleCreateAlert_def)
qed

text \<open>
  One sparing operation: the alert is as before, or acknowledged, or the
  operation was a confirmed reset and the alert is gone.
\<close>

lemma step_spares:
  assumes sp: "spares k op"
  shows "map_of (alerts (step op s)) k = map_of (alerts s) k
         \<or> acknowledged (step op s) k
         \<or> (confirmedReset op \<and> map_of (alerts (step op s)) k = None)"
proof (cases op)
  case (RegisterNode env f)
  then show ?thesis by (simp add: register_alerts)
next
  case (DeleteNode dr now n)
  then show ?thesis by (simp add: handleDeleteNode_alerts)
next
  case (AddContact dr t1 t2 f)
  then show ?thesis by (simp add: contacts_handleSubmit_alerts)
next
  case (DeleteContact c)
  then show ?thesis by (simp add: contacts_handleDelete_def)
next
  case (CreateAlert env d f)
  with sp show ?thesis by (simp add: create_alert_other)
next
  case (SendManualAlert dr now f)
  with sp show ?thesis by (simp add: manual_alert_other)
next
  case (Acknowledge now j)
  show ?thesis
  proof (cases "j = k")
    case True
    with Acknowledge acknowledge_sets[of now k s] show ?thesis
      by (auto simp: acknowledged_def)
  next
    case False
    with Acknowledge show ?thesis
      by (simp add: acknowledge_other)
  qed
next
  case (ImportData dr now imp)
  with sp show ?thesis by (simp add: import_alerts)
next
  case (ResetSystem confirmText)
  then show ?thesis
    by (cases "confirmText = ''DELETE''") (simp_all add: handleResetSystem_def)
qed

lemma acknowledged_settled: "acknowledged s k \<Longrightarrow> settled s k"
  by (auto simp: acknowledged_def settled_def split: option.splits)

lemma step_settled:
  assumes a: "settled s k" and sp: "spares k op"
  shows "settled (step op s) k"
  using step_spares[OF sp, of s] a acknowledged_settled[of "step op s" k]
  by (auto simp: settled_def)

lemma step_acknowledged:
  assumes a: "acknowledged s k" and sp: "spares k op" and nr: "\<not> confirmedReset op"
  shows "acknowledged (step op s) k"
  using step_spares[OF sp, of s] a nr
  by (auto simp: acknowledged_def)

lemma run_settled:
  "settled s k \<Longrightarrow> \<forall>op \<in> set ops. spares k op \<Longrightarrow> settled (run ops s) k"
proof (induction ops arbitrary: s)
  case Nil
  then show ?case by (simp add: run_def)
next
  case (Cons op ops)
  from Cons.prems have "settled (step op s) k"
    by (simp add: step_settled)
  with Cons.IH[of "step op s"] Cons.prems(2) show ?case
    by (simp add: run_def)
qed

lemma run_acknowledged:
  "acknowledged s k \<Longrightarrow> \<forall>op \<in> set ops. spares k op \<and> \<not> confirmedReset op \<Longrightarrow>
   acknowledged (run ops s) k"
proof (induction ops arbitrary: s)
  case Nil
  then show ?case by (simp add: run_def)
next
  case (Cons op ops)
  from Cons.prems have "acknowledged (step op s) k"
    by (simp add: step_acknowledged)
  with Cons.IH[of "step op s"] Cons.prems(2) show ?case
    by (simp add: run_def)
qed

text \<open>
  Claim C8, as stated: no operation ever takes an acknowledged alert back to
  unacknowledged. An alert is created and acknowledged; importing a dump where
  that alert is still unacknowledged replaces the alerts collection, and the
  alert is unacknowledged again.
\<close>

theorem acknowledgement_reversed_by_import:
  "acknowledged
     (run [SendManualAlert (1, ''a'') 1 \<lparr>ma_nodeId = ''node1'', ma_severity = ''warning'', ma_message = ''Rain''\<rparr>,
           Acknowledge 2 (generateId ''alert'' (1, ''a''))]
        \<lparr>nodes = [], alerts = [], contacts = [], logs = [], notifications = []\<rparr>)
     (generateId ''alert'' (1, ''a''))
   \<and> \<not> acknowledged
     (run [SendManualAlert (1, ''a'') 1 \<lparr>ma_nodeId = ''node1'', ma_severity = ''warning'', ma_message = ''Rain''\<rparr>,
           Acknowledge 2 (generateId ''alert'' (1, ''a'')),
           ImportData (3, ''l'') 3
             \<lparr>imp_nodes = None,
              imp_alerts = Some [(generateId ''alert'' (1, ''a''),
                                  [(''id'', String (generateId ''alert'' (1, ''a''))),
                                   (''acknowledged'', Boolean False)])],
              imp_contacts = None\<rparr>]
        \<lparr>nodes = [], alerts = [], contacts = [], logs = [], notifications = []\<rparr>)
     (generateId ''alert'' (1, ''a''))"
  by (simp add: run_def acknowledged_def handleSendManualAlert_def Let_def set_alert_def
        map_of_fb_put handleAcknowledge_def update_conv' fb_merge_def vacant_def getprop_def
        confirmImportData_def set_log_def stored_collection_def stored_obj_def computeRecipients_def)

text \<open>
  Claim C8, amended. \<^verbatim>\<open>handleAcknowledge\<close> sets \<^verbatim>\<open>acknowledged\<close> to \<^verbatim>\<open>true\<close> with
  the acknowledger and the time, on any store, so repeating it keeps the flag.
  Once an alert is acknowledged, no sequence of operations brings it back to
  unacknowledged unless it imports an alerts collection or creates an alert
  under the same identifier: after the sequence the alert is stored as
  acknowledged, or it is not stored at all, which only a confirmed reset
  brings about. Without a confirmed reset it is still stored and acknowledged.
\<close>

theorem acknowledgement_monotone:
  "(\<exists>a. map_of (alerts (handleAcknowledge now k s)) k = Some a
       \<and> getprop a ''acknowledged'' = Boolean True
       \<and> getprop a ''acknowledgedBy'' = String ''analytical''
       \<and> getprop a ''acknowledgedAt'' = Number (Fin (real_of_int now)))
   \<and> acknowledged (handleAcknowledge now k s) k
   \<and> (acknowledged s k \<and> (\<forall>op \<in> set ops. spares k op) \<longrightarrow>
        (case map_of (alerts (run ops s)) k of
           None \<Rightarrow> True
         | Some a \<Rightarrow> getprop a ''acknowledged'' = Boolean True))
   \<and> (acknowledged s k \<and> (\<forall>op \<in> set ops. spares k op \<and> \<not> confirmedReset op) \<longrightarrow>
        acknowledged (run ops s) k)"
proof (intro conjI impI)
  show "\<exists>a. map_of (alerts (handleAcknowledge now k s)) k = Some a
       \<and> getprop a ''acknowledged'' = Boolean True
       \<and> getprop a ''acknowledgedBy'' = String ''analytical''
       \<and> getprop a ''acknowledgedAt'' = Number (Fin (real_of_int now))"
    by (rule acknowledge_sets)
  show "acknowledged (handleAcknowledge now k s) k"
    using acknowledge_sets[of now k s] by (auto simp: acknowledged_def)
  show "case map_of (alerts (run ops s)) k of
           None \<Rightarrow> True
         | Some a \<Rightarrow> getprop a ''acknowledged'' = Boolean True"
    if "acknowledged s k \<and> (\<forall>op \<in> set ops. spares k op)"
    using that run_settled[of s k ops] acknowledged_settled[of s k]
    by (simp add: settled_def)
  show "acknowledged (run ops s) k"
    if "acknowledged s k \<and> (\<forall>op \<in> set ops. spares k op \<and> \<not> confirmedReset op)"
    using that run_acknowledged[of s k ops] by simp
qed

text \<open>
  The theorem for an alert acknowledged twice: through a sequence with a failed
  reset and an import of nodes only it stays acknowledged; a confirmed reset
  removes it, and it does not come back unacknowledged.
\<close>

theorem acknowledgement_monotone_witness:
  "acknowledged
     (run [Acknowledge 3 ''alert_1_a'', DeleteContact ''contact_9_z'', ResetSystem ''delete'',
           ImportData (4, ''l'') 4 \<lparr>imp_nodes = Some [], imp_alerts = None, imp_contacts = None\<rparr>]
        (handleAcknowledge 2 ''alert_1_a''
           \<lparr>nodes = [],
            alerts = [(''alert_1_a'', [(''id'', String ''alert_1_a''),
                                       (''acknowledged'', Boolean False)])],
            contacts = [], logs = [], notifications = []\<rparr>))
     ''alert_1_a''
   \<and> map_of (alerts
     (run [Acknowledge 3 ''alert_1_a'', ResetSystem ''DELETE'', DeleteContact ''contact_9_z'']
        (handleAcknowledge 2 ''alert_1_a''
           \<lparr>nodes = [],
            alerts = [(''alert_1_a'', [(''id'', String ''alert_1_a''),
                                       (''acknowledged'', Boolean False)])],
            contacts = [], logs = [], notifications = []\<rparr>))) ''alert_1_a'' = None"
proof -
  let ?s = "\<lparr>nodes = [],
        alerts = [(''alert_1_a'', [(''id'', String ''alert_1_a''),
                                   (''acknowledged'', Boolean False)])],
        contacts = [], logs = [], notifications = []\<rparr>"
  have a: "acknowledged (handleAcknowledge 2 ''alert_1_a'' ?s) ''alert_1_a''"
    using acknowledgement_monotone[of 2 "''alert_1_a''" ?s] by simp
  have r: "map_of (alerts
     (run [Acknowledge 3 ''alert_1_a'', ResetSystem ''DELETE'', DeleteContact ''contact_9_z'']
        (handleAcknowledge 2 ''alert_1_a'' ?s))) ''alert_1_a'' = None"
    by (simp add: run_def handleResetSystem_def contacts_handleDelete_def)
  show ?thesis
    using a r
      acknowledgement_monotone[of _ "''alert_1_a''" "handleAcknowledge 2 ''alert_1_a'' ?s"
        "[Acknowledge 3 ''alert_1_a'', DeleteContact ''contact_9_z'', ResetSystem ''delete'',
          ImportData (4, ''l'') 4 \<lparr>imp_nodes = Some [], imp_alerts = None, imp_contacts = None\<rparr>]"]
      acknowledgement_monotone[of _ "''alert_1_a''" "handleAcknowledge 2 ''alert_1_a'' ?s"
        "[Acknowledge 3 ''alert_1_a'', ResetSystem ''DELETE'', DeleteContact ''contact_9_z'']"]
    by simp
qed

end
